theory Spec2Isabelle
  imports Complex_Main "HOL-Library.Multiset"
begin

section \<open>Data model\<close>

text \<open>
  The dashboard is JavaScript. Timestamps, lengths and capacities are integers and are
  modelled as \<open>int\<close> and \<open>nat\<close>; prices, returns and statistics are doubles and are
  modelled as \<open>real\<close>, with the rounding of each operation written out where the
  statistics are computed. An object field that may be absent (\<open>undefined\<close>) or
  \<open>null\<close> is an \<open>option\<close>.
\<close>

record candle =
  timestamp :: int
  c_open :: real
  c_high :: real
  c_low :: real
  c_close :: real
  volume :: real

subsection \<open>Array helpers\<close>

text \<open>
  \<open>Array.prototype.slice(start)\<close> with one argument: a negative \<open>start\<close> counts from
  the end and is clamped at the front, a non-negative one is clamped at the length. In
  particular \<open>slice(-0)\<close> is \<open>slice(0)\<close>, the whole array.
\<close>

definition slice :: "int \<Rightarrow> 'a list \<Rightarrow> 'a list" where
  "slice start xs =
     (let len = int (length xs);
          k = (if start < 0 then max (len + start) 0 else min start len)
      in drop (nat k) xs)"

text \<open>
  \<open>[...xs].sort((a, b) => a.timestamp - b.timestamp)\<close>: a stable ascending sort of a
  copy by the timestamp field.
\<close>

definition sortByTimestamp :: "candle list \<Rightarrow> candle list" where
  "sortByTimestamp xs = sort_key timestamp xs"

section \<open>Series buffer (SymbolChart)\<close>

text \<open>The table \<open>MAX_POINTS\<close> and the lookup \<open>MAX_POINTS[activeTimeframe] ?? 120\<close>.\<close>

definition MAX_POINTS :: "string \<rightharpoonup> int" where
  "MAX_POINTS = [''1s'' \<mapsto> 120, ''1m'' \<mapsto> 60, ''5m'' \<mapsto> 72]"

definition maxPointsOf :: "string \<Rightarrow> int" where
  "maxPointsOf activeTimeframe =
     (case MAX_POINTS activeTimeframe of Some n \<Rightarrow> n | None \<Rightarrow> 120)"

text \<open>
  The success path of \<open>fetchCandles\<close>: the response's candles (an absent field reads as
  the empty array) are sorted, cut to the last \<open>maxPoints\<close> and replace the buffer.
\<close>

definition load :: "int \<Rightarrow> candle list option \<Rightarrow> candle list" where
  "load maxPoints response_candles =
     slice (- maxPoints)
       (sortByTimestamp (case response_candles of None \<Rightarrow> [] | Some cs \<Rightarrow> cs))"

text \<open>
  The updater passed to \<open>setCandles\<close> in the \<open>candle_update\<close> effect. There are three
  branches and no comparison other than \<open>===\<close> on the last timestamp.
\<close>

definition applyUpdate :: "int \<Rightarrow> candle list \<Rightarrow> candle \<Rightarrow> candle list" where
  "applyUpdate maxPoints prev newCandle =
     (if length prev = 0 then [newCandle]
      else if timestamp (prev ! (length prev - 1)) = timestamp newCandle
        then prev[length prev - 1 := newCandle]
      else slice (- (maxPoints - 1)) prev @ [newCandle])"







text \<open>A candle that carries only a timestamp and a close, for examples.\<close>

definition candleAt :: "int \<Rightarrow> real \<Rightarrow> candle" where
  "candleAt t c = \<lparr>timestamp = t, c_open = c, c_high = c, c_low = c, c_close = c, volume = 0\<rparr>"

section \<open>Backtester: trade matching and performance\<close>

record signal =
  sig_type :: string
  sig_timestamp :: int
  price :: real

text \<open>A trade is open while its exit is \<open>null\<close>.\<close>

record trade =
  entry :: signal
  exit :: "signal option"

text \<open>
  The callback of \<open>signalData.forEach\<close> in \<open>calculateMetrics\<close>, on the pair of the
  output array \<open>trades\<close> and the slot \<open>currentTrade\<close> (\<open>None\<close> for \<open>null\<close>).
\<close>

fun matchSignal :: "trade list \<times> trade option \<Rightarrow> signal \<Rightarrow> trade list \<times> trade option" where
  "matchSignal (trades, currentTrade) signal =
     (if sig_type signal = ''entry'' \<and> currentTrade = None
        then (trades, Some \<lparr>entry = signal, exit = None\<rparr>)
      else if sig_type signal = ''exit'' \<and> currentTrade \<noteq> None
        then (trades @ [(the currentTrade)\<lparr>exit := Some signal\<rparr>], None)
      else (trades, currentTrade))"

definition matchState :: "signal list \<Rightarrow> trade list \<times> trade option" where
  "matchState signalData = foldl matchSignal ([], None) signalData"

text \<open>Only \<open>trades\<close> is read after the loop; the slot is dropped.\<close>

definition matchTrades :: "signal list \<Rightarrow> trade list" where
  "matchTrades signalData = fst (matchState signalData)"

text \<open>
  The positions of a list of trades in the signal list: trade \<open>k\<close> is the pair of the
  entry signal at position \<open>i\<close> and the exit signal at position \<open>j\<close>, with \<open>i < j\<close>,
  and each trade's exit comes before the next trade's entry.
\<close>

definition tradeAt :: "signal list \<Rightarrow> nat \<times> nat \<Rightarrow> trade \<Rightarrow> bool" where
  "tradeAt signalData p t =
     (fst p < snd p \<and> snd p < length signalData \<and>
      sig_type (signalData ! fst p) = ''entry'' \<and>
      sig_type (signalData ! snd p) = ''exit'' \<and>
      t = \<lparr>entry = signalData ! fst p, exit = Some (signalData ! snd p)\<rparr>)"

definition pairing :: "signal list \<Rightarrow> (nat \<times> nat) list \<Rightarrow> trade list \<Rightarrow> bool" where
  "pairing signalData ps ts =
     (list_all2 (tradeAt signalData) ps ts \<and> sorted_wrt (\<lambda>p q. snd p < fst q) ps)"

text \<open>
  The invariant of the matching loop after the signals \<open>sigs\<close>: the output is paired
  at the positions \<open>ps\<close>, all inside \<open>sigs\<close>, and an open trade holds an entry signal
  that comes after every pair.
\<close>

definition openSlot :: "signal list \<Rightarrow> (nat \<times> nat) list \<Rightarrow> trade option \<Rightarrow> bool" where
  "openSlot sigs ps cur =
     (case cur of
        None \<Rightarrow> True
      | Some t \<Rightarrow> (\<exists>i<length sigs. t = \<lparr>entry = sigs ! i, exit = None\<rparr> \<and>
                     sig_type (sigs ! i) = ''entry'' \<and> (\<forall>p \<in> set ps. snd p < i)))"

definition matchInv :: "signal list \<Rightarrow> (nat \<times> nat) list \<Rightarrow> trade list \<times> trade option \<Rightarrow> bool" where
  "matchInv sigs ps st =
     (pairing sigs ps (fst st) \<and> (\<forall>p \<in> set ps. snd p < length sigs) \<and> openSlot sigs ps (snd st))"

subsection \<open>Performance statistics\<close>

text \<open>
  A JavaScript Number is an IEEE-754 double: every arithmetic operation returns its exact
  result rounded to a double. The functions of this section take that rounding as the
  parameter \<open>rnd\<close> and apply it to the exact result of every \<open>+\<close>, \<open>-\<close>, \<open>*\<close>,
  \<open>/\<close>, \<open>Math.pow\<close> and \<open>Math.sqrt\<close> of the source; comparisons do not round.
  \<open>exact\<close> is arithmetic without rounding and \<open>binary64\<close> is round to nearest, ties
  to even, on 53 bits. A division by zero, \<open>NaN\<close> and an overflow to \<open>Infinity\<close> are
  outside the model. Counts (\<open>length\<close>) are small integers and need no rounding.
\<close>

definition exact :: "real \<Rightarrow> real" where
  "exact x = x"

text \<open>Round to the nearest integer, a tie to the even one.\<close>

definition rne :: "real \<Rightarrow> int" where
  "rne y =
     (let f = \<lfloor>y\<rfloor>
      in if y - of_int f < 1 / 2 then f
         else if y - of_int f > 1 / 2 then f + 1
         else if even f then f else f + 1)"

text \<open>
  A real rounded to 53 significant bits: with \<open>2 ^ e \<le> |x| < 2 ^ (e + 1)\<close>, the nearest
  multiple of \<open>2 ^ (e - 52)\<close>. The exponent is not bounded, so this is the double nearest
  to \<open>x\<close> whenever \<open>x\<close> is in the range of normal doubles.
\<close>

definition binary64 :: "real \<Rightarrow> real" where
  "binary64 x =
     (if x = 0 then 0
      else (let e = \<lfloor>log 2 \<bar>x\<bar>\<rfloor>
            in of_int (rne (x / 2 powr (of_int e - 52))) * 2 powr (of_int e - 52)))"

text \<open>
  Reading \<open>trade.exit.price\<close> of a trade whose exit is \<open>null\<close> throws a TypeError; the
  model returns it as a value.
\<close>

datatype error = TypeError

definition pnlOf :: "(real \<Rightarrow> real) \<Rightarrow> trade \<Rightarrow> error + real" where
  "pnlOf rnd trade =
     (case exit trade of
        None \<Rightarrow> Inl TypeError
      | Some x \<Rightarrow>
          (let entryPrice = price (entry trade); exitPrice = price x
           in Inr (rnd (rnd (rnd (exitPrice - entryPrice) / entryPrice) * 100))))"

text \<open>\<open>trades.map(...)\<close> with that callback: the first throw ends the map.\<close>

fun tradePnL :: "(real \<Rightarrow> real) \<Rightarrow> trade list \<Rightarrow> error + real list" where
  "tradePnL rnd [] = Inr []"
| "tradePnL rnd (t # ts) =
     (case pnlOf rnd t of
        Inl e \<Rightarrow> Inl e
      | Inr pnl \<Rightarrow>
          (case tradePnL rnd ts of Inl e \<Rightarrow> Inl e | Inr pnls \<Rightarrow> Inr (pnl # pnls)))"

text \<open>\<open>xs.reduce((sum, pnl) => sum + pnl, 0)\<close>.\<close>

definition reduceSum :: "(real \<Rightarrow> real) \<Rightarrow> real list \<Rightarrow> real" where
  "reduceSum rnd xs = foldl (\<lambda>sum pnl. rnd (sum + pnl)) 0 xs"

text \<open>
  The drawdown loop on \<open>(peak, maxDrawdown, cumulative)\<close>. \<open>peak\<close> starts at
  \<open>-Infinity\<close>, written \<open>None\<close>: every cumulative sum is greater.
\<close>

fun drawdownStep ::
  "(real \<Rightarrow> real) \<Rightarrow> real option \<times> real \<times> real \<Rightarrow> real \<Rightarrow> real option \<times> real \<times> real" where
  "drawdownStep rnd (peak, maxDrawdown, cumulative) pnl =
     (let cumulative = rnd (cumulative + pnl);
          peak = (case peak of
                    None \<Rightarrow> cumulative
                  | Some p \<Rightarrow> if cumulative > p then cumulative else p);
          drawdown = rnd (peak - cumulative);
          maxDrawdown = (if drawdown > maxDrawdown then drawdown else maxDrawdown)
      in (Some peak, maxDrawdown, cumulative))"

definition maxDrawdownOf :: "(real \<Rightarrow> real) \<Rightarrow> real list \<Rightarrow> real" where
  "maxDrawdownOf rnd pnls = fst (snd (foldl (drawdownStep rnd) (None, 0, 0) pnls))"

text \<open>The Sharpe ratio lines; \<open>pnls\<close> is \<open>tradePnL\<close>, as long as \<open>trades\<close>.\<close>

definition avgReturnOf :: "(real \<Rightarrow> real) \<Rightarrow> real list \<Rightarrow> real" where
  "avgReturnOf rnd pnls = rnd (reduceSum rnd pnls / real (length pnls))"

definition varianceOf :: "(real \<Rightarrow> real) \<Rightarrow> real list \<Rightarrow> real" where
  "varianceOf rnd pnls =
     (let avgReturn = avgReturnOf rnd pnls
      in rnd (foldl (\<lambda>sum pnl. rnd (sum + rnd ((rnd (pnl - avgReturn)) ^ 2))) 0 pnls
              / real (length pnls)))"

definition stdDevOf :: "(real \<Rightarrow> real) \<Rightarrow> real list \<Rightarrow> real" where
  "stdDevOf rnd pnls = rnd (sqrt (varianceOf rnd pnls))"

definition sharpeRatioOf :: "(real \<Rightarrow> real) \<Rightarrow> real list \<Rightarrow> real" where
  "sharpeRatioOf rnd pnls =
     (let avgReturn = avgReturnOf rnd pnls;
          stdDev = stdDevOf rnd pnls
      in if stdDev > 0 then rnd (rnd (avgReturn / stdDev) * rnd (sqrt 252)) else 0)"

record stats =
  totalTrades :: nat
  winningTrades :: nat
  losingTrades :: nat
  winRate :: real
  totalProfitLoss :: real
  avgProfit :: real
  avgLoss :: real
  maxDrawdown :: real
  sharpeRatio :: real

definition zeroStats :: stats where
  "zeroStats = \<lparr>totalTrades = 0, winningTrades = 0, losingTrades = 0, winRate = 0,
     totalProfitLoss = 0, avgProfit = 0, avgLoss = 0, maxDrawdown = 0, sharpeRatio = 0\<rparr>"

text \<open>The returned record, from the per-trade returns of a non-empty \<open>trades\<close>.\<close>

definition statsOf :: "(real \<Rightarrow> real) \<Rightarrow> real list \<Rightarrow> stats" where
  "statsOf rnd pnls =
     (let winning = filter (\<lambda>pnl. pnl > 0) pnls;
          losing = filter (\<lambda>pnl. pnl < 0) pnls
      in \<lparr>totalTrades = length pnls,
          winningTrades = length winning,
          losingTrades = length losing,
          winRate = (if length pnls > 0
                     then rnd (rnd (real (length winning) / real (length pnls)) * 100) else 0),
          totalProfitLoss = reduceSum rnd pnls,
          avgProfit = (if length winning \<noteq> 0
                       then rnd (reduceSum rnd winning / real (length winning)) else 0),
          avgLoss = (if length losing \<noteq> 0
                     then rnd (reduceSum rnd losing / real (length losing)) else 0),
          maxDrawdown = maxDrawdownOf rnd pnls,
          sharpeRatio = sharpeRatioOf rnd pnls\<rparr>)"

text \<open>
  The part of \<open>calculateMetrics\<close> after the matching loop, on the matched trades
  (\<open>Inl\<close> is a thrown error), and the whole function: \<open>Inr None\<close> is the returned
  \<open>null\<close>. \<open>priceData\<close> is not read.
\<close>

definition performanceOf :: "(real \<Rightarrow> real) \<Rightarrow> trade list \<Rightarrow> error + stats" where
  "performanceOf rnd trades =
     (if length trades = 0 then Inr zeroStats
      else (case tradePnL rnd trades of
              Inl e \<Rightarrow> Inl e
            | Inr pnls \<Rightarrow> Inr (statsOf rnd pnls)))"

definition calculateMetrics ::
  "(real \<Rightarrow> real) \<Rightarrow> candle list \<Rightarrow> signal list \<Rightarrow> error + stats option" where
  "calculateMetrics rnd priceData signalData =
     (if length signalData = 0 then Inr None
      else (case performanceOf rnd (matchTrades signalData) of
              Inl e \<Rightarrow> Inl e
            | Inr s \<Rightarrow> Inr (Some s)))"

text \<open>
  The spec's reading of the drawdown: the cumulative sums of the returns in trade order,
  the running peak of those sums, the drawdown peak minus cumulative at each step.
\<close>

definition cumulativeSums :: "(real \<Rightarrow> real) \<Rightarrow> real list \<Rightarrow> real list" where
  "cumulativeSums rnd pnls = map (\<lambda>k. reduceSum rnd (take (Suc k) pnls)) [0..<length pnls]"

definition runningPeaks :: "real list \<Rightarrow> real list" where
  "runningPeaks cs = map (\<lambda>k. Max (set (take (Suc k) cs))) [0..<length cs]"

definition drawdowns :: "(real \<Rightarrow> real) \<Rightarrow> real list \<Rightarrow> real list" where
  "drawdowns rnd pnls =
     map2 (\<lambda>peak cumulative. rnd (peak - cumulative))
       (runningPeaks (cumulativeSums rnd pnls)) (cumulativeSums rnd pnls)"

text \<open>The spec's population variance: the mean squared deviation, divisor \<open>n\<close>.\<close>

definition populationVariance :: "real list \<Rightarrow> real" where
  "populationVariance xs =
     (\<Sum>x\<leftarrow>xs. (x - sum_list xs / real (length xs)) ^ 2) / real (length xs)"

text \<open>Signals for examples.\<close>

definition entryAt :: "int \<Rightarrow> real \<Rightarrow> signal" where
  "entryAt t p = \<lparr>sig_type = ''entry'', sig_timestamp = t, price = p\<rparr>"

definition exitAt :: "int \<Rightarrow> real \<Rightarrow> signal" where
  "exitAt t p = \<lparr>sig_type = ''exit'', sig_timestamp = t, price = p\<rparr>"

text \<open>The trades of the spec's matching example.\<close>

definition exampleTrades :: "trade list" where
  "exampleTrades =
     [\<lparr>entry = entryAt 1 100, exit = Some (exitAt 2 110)\<rparr>,
      \<lparr>entry = entryAt 3 90, exit = Some (exitAt 4 80)\<rparr>]"

text \<open>
  The double nearest to 0.1, and three round trips from 1000 to 1001, each of which
  returns it.
\<close>

definition oneTenth :: real where
  "oneTenth = 3602879701896397 / 2 ^ 55"

definition flatSignals :: "signal list" where
  "flatSignals =
     [entryAt 1 1000, exitAt 2 1001, entryAt 3 1000, exitAt 4 1001,
      entryAt 5 1000, exitAt 6 1001]"

section \<open>Inbound messages and the live score buffer\<close>

text \<open>
  A parsed websocket message. Each field may be absent (\<open>None\<close>); a field that is
  present has the type the backend gives it. The timestamp is in epoch milliseconds.
\<close>

record message =
  msg_type :: "string option"
  msg_symbol :: "string option"
  msg_timeframe :: "string option"
  msg_candle :: "candle option"
  msg_timestamp :: "int option"
  z_score :: "real option"

record scorePoint =
  sp_timestamp :: int
  sp_value :: real

text \<open>\<open>String.prototype.toLowerCase\<close> on ASCII text (the symbols are tickers).\<close>

definition lowerChar :: "char \<Rightarrow> char" where
  "lowerChar c =
     (let n = (of_char c :: nat) in if 65 \<le> n \<and> n \<le> 90 then char_of (n + 32) else c)"

definition toLowerCase :: "string \<Rightarrow> string" where
  "toLowerCase s = map lowerChar s"

text \<open>
  The state the handlers read and write: the socket context's \<open>lastJsonMessage\<close>, the
  lines written by \<open>console.warn\<close>, the \<open>liveZScores\<close> object of AnalyticsLab, and the
  \<open>activeTimeframe\<close> and \<open>candles\<close> of one SymbolChart.
\<close>

record app =
  lastJsonMessage :: "message option"
  warnings :: "string list"
  liveZScores :: "string \<rightharpoonup> scorePoint list"
  activeTimeframe :: string
  candles :: "candle list"

text \<open>
  The \<open>live_zscore\<close> effect of AnalyticsLab. The key is the template string
  \<open>symbol_tf\<close>, in which an absent timeframe prints as \<open>undefined\<close>;
  \<open>lastMessage.timestamp || Date.now()\<close> takes the clock \<open>now\<close> when the timestamp is
  absent or 0, and \<open>lastMessage.z_score ?? 0\<close> is 0 when the score is absent.
\<close>

definition scoreKey :: "message \<Rightarrow> string" where
  "scoreKey lastMessage =
     (let symbol = toLowerCase (case msg_symbol lastMessage of None \<Rightarrow> [] | Some s \<Rightarrow> s);
          tf = (case msg_timeframe lastMessage of None \<Rightarrow> ''undefined'' | Some t \<Rightarrow> t)
      in symbol @ ''_'' @ tf)"

definition newPointOf :: "int \<Rightarrow> message \<Rightarrow> scorePoint" where
  "newPointOf now lastMessage =
     \<lparr>sp_timestamp =
        (case msg_timestamp lastMessage of
           None \<Rightarrow> now
         | Some t \<Rightarrow> if t = 0 then now else t),
      sp_value = (case z_score lastMessage of None \<Rightarrow> 0 | Some z \<Rightarrow> z)\<rparr>"

definition liveZScoresUpdater ::
  "string \<Rightarrow> scorePoint \<Rightarrow> (string \<rightharpoonup> scorePoint list) \<Rightarrow> (string \<rightharpoonup> scorePoint list)" where
  "liveZScoresUpdater key newPoint prev =
     (let existing = (case prev key of None \<Rightarrow> [] | Some ps \<Rightarrow> ps)
      in prev(key \<mapsto> slice (- 200) (existing @ [newPoint])))"

definition liveZScoreEffect :: "int \<Rightarrow> message option \<Rightarrow> app \<Rightarrow> app" where
  "liveZScoreEffect now lastMessage a =
     (case lastMessage of
        None \<Rightarrow> a
      | Some m \<Rightarrow>
          if msg_type m \<noteq> Some ''live_zscore'' then a
          else a\<lparr>liveZScores :=
                 liveZScoresUpdater (scoreKey m) (newPointOf now m) (liveZScores a)\<rparr>)"

text \<open>The \<open>candle_update\<close> effect of the SymbolChart for \<open>symbol\<close>.\<close>

definition candleUpdateEffect :: "string \<Rightarrow> message option \<Rightarrow> app \<Rightarrow> app" where
  "candleUpdateEffect symbol lastMessage a =
     (case lastMessage of
        None \<Rightarrow> a
      | Some m \<Rightarrow>
          if msg_type m \<noteq> Some ''candle_update'' then a
          else if toLowerCase (case msg_symbol m of None \<Rightarrow> [] | Some s \<Rightarrow> s)
                  \<noteq> toLowerCase symbol then a
          else if msg_timeframe m \<noteq> Some (activeTimeframe a) then a
          else (case msg_candle m of
                  None \<Rightarrow> a
                | Some newCandle \<Rightarrow>
                    a\<lparr>candles :=
                        applyUpdate (maxPointsOf (activeTimeframe a)) (candles a) newCandle\<rparr>))"

text \<open>
  One websocket frame. The parse effect of SocketProvider stores the parsed message or, if
  \<open>JSON.parse\<close> throws (\<open>None\<close>), catches and warns; the two effects above depend on
  \<open>lastMessage\<close> and run only when a new parsed message is stored. \<open>JSON.parse\<close> is a
  parameter.
\<close>

definition parseWarning :: string where
  "parseWarning = ''SocketContext: Unable to parse websocket message''"

definition onFrame ::
  "(string \<Rightarrow> message option) \<Rightarrow> int \<Rightarrow> string \<Rightarrow> string option \<Rightarrow> app \<Rightarrow> app" where
  "onFrame JSON_parse now symbol rawMessage a =
     (case rawMessage of
        None \<Rightarrow> a
      | Some data \<Rightarrow>
          (case JSON_parse data of
             None \<Rightarrow> a\<lparr>warnings := warnings a @ [parseWarning]\<rparr>
           | Some parsed \<Rightarrow>
               candleUpdateEffect symbol (Some parsed)
                 (liveZScoreEffect now (Some parsed) (a\<lparr>lastJsonMessage := Some parsed\<rparr>))))"

text \<open>Messages for examples: no field but the type; a full score message.\<close>

definition bareMessage :: "string \<Rightarrow> message" where
  "bareMessage ty =
     \<lparr>msg_type = Some ty, msg_symbol = None, msg_timeframe = None, msg_candle = None,
      msg_timestamp = None, z_score = None\<rparr>"

definition scoreMessage :: "string \<Rightarrow> string \<Rightarrow> int \<Rightarrow> real \<Rightarrow> message" where
  "scoreMessage s tf t z =
     \<lparr>msg_type = Some ''live_zscore'', msg_symbol = Some s, msg_timeframe = Some tf,
      msg_candle = None, msg_timestamp = Some t, z_score = Some z\<rparr>"

definition emptyApp :: app where
  "emptyApp = \<lparr>lastJsonMessage = None, warnings = [], liveZScores = Map.empty,
     activeTimeframe = ''1m'', candles = []\<rparr>"

text \<open>A score point and a state with two score buffers, for examples.\<close>

definition pointAt :: "int \<Rightarrow> real \<Rightarrow> scorePoint" where
  "pointAt t v = \<lparr>sp_timestamp = t, sp_value = v\<rparr>"

definition exampleApp :: app where
  "exampleApp = emptyApp\<lparr>liveZScores := [''btcusdt_1m'' \<mapsto> [pointAt 1000 1], ''ethusdt_1m'' \<mapsto> [pointAt 900 3]]\<rparr>"

section \<open>Properties of the series buffer\<close>

lemma maxPointsOf_cases: "maxPointsOf tf = 120 \<or> maxPointsOf tf = 60 \<or> maxPointsOf tf = 72"
  by (simp add: maxPointsOf_def MAX_POINTS_def)

lemma maxPointsOf_ge_2: "2 \<le> maxPointsOf tf"
  using maxPointsOf_cases [of tf] by auto

lemma slice_neg: "0 < n \<Longrightarrow> slice (- n) xs = drop (length xs - nat n) xs"
  by (auto simp: slice_def Let_def max_def intro: arg_cong [where f = "\<lambda>k. drop k xs"])


lemma applyUpdate_equal:
  "prev \<noteq> [] \<Longrightarrow> timestamp (last prev) = timestamp c \<Longrightarrow>
     applyUpdate n prev c = butlast prev @ [c]"
  by (cases prev rule: rev_cases) (simp_all add: applyUpdate_def last_conv_nth)

lemma applyUpdate_other:
  assumes "prev \<noteq> []" "timestamp (last prev) \<noteq> timestamp c" "2 \<le> n"
  shows "applyUpdate n prev c = drop (length prev + 1 - nat n) (prev @ [c])"
proof -
  have "slice (- (n - 1)) prev = drop (length prev - nat (n - 1)) prev"
    using assms(3) by (intro slice_neg) simp
  moreover have "length prev - nat (n - 1) = length prev + 1 - nat n"
    using assms(3) by (simp add: nat_diff_distrib)
  moreover have "length prev + 1 - nat n \<le> length prev"
    using assms(3) by simp
  ultimately show ?thesis
    using assms(1,2) by (simp add: applyUpdate_def last_conv_nth)
qed






lemma sorted_load: "sorted (map timestamp (load n r))"
  by (simp add: load_def slice_def Let_def sortByTimestamp_def
        drop_map [symmetric] sorted_wrt_drop sorted_sort_key del: drop_map)











text \<open>
  C2 (as stated, refuted). With the buffer holding the candle at t=5, an update at t=3
  does not leave the buffer unchanged: the older candle is appended behind the newer one.
\<close>

theorem out_of_order_counterexample:
  "[candleAt 5 1] \<noteq> [] \<and>
   timestamp (candleAt 3 2) < timestamp (last [candleAt 5 1]) \<and>
   applyUpdate (maxPointsOf ''1m'') [candleAt 5 1] (candleAt 3 2)
     = [candleAt 5 1, candleAt 3 2] \<and>
   applyUpdate (maxPointsOf ''1m'') [candleAt 5 1] (candleAt 3 2) \<noteq> [candleAt 5 1]"
  by (simp add: applyUpdate_def candleAt_def slice_def maxPointsOf_def MAX_POINTS_def)

text \<open>
  C2 (amended). If a buffer is non-empty and applyUpdate receives a candle whose
  timestamp is strictly less than the last element's timestamp, the update is not
  rejected: the candle is appended as the new last element, as a newer candle would be,
  the oldest elements are dropped from the front down to the capacity, and the buffer
  differs from the one before.
\<close>

theorem out_of_order_appended:
  assumes "prev \<noteq> []" and "timestamp c < timestamp (last prev)"
  shows "applyUpdate (maxPointsOf tf) prev c
           = drop (length prev + 1 - nat (maxPointsOf tf)) (prev @ [c]) \<and>
         last (applyUpdate (maxPointsOf tf) prev c) = c \<and>
         applyUpdate (maxPointsOf tf) prev c \<noteq> prev"
proof -
  let ?n = "maxPointsOf tf"
  have n: "2 \<le> ?n" by (rule maxPointsOf_ge_2)
  have eq: "applyUpdate ?n prev c = drop (length prev + 1 - nat ?n) (prev @ [c])"
    using assms n by (intro applyUpdate_other) simp_all
  have "length prev + 1 - nat ?n < length (prev @ [c])"
    using n by simp
  then have l: "last (drop (length prev + 1 - nat ?n) (prev @ [c])) = c"
    by (simp only: last_drop) simp
  have "applyUpdate ?n prev c \<noteq> prev"
  proof
    assume "applyUpdate ?n prev c = prev"
    with eq l have "last prev = c" by simp
    with assms(2) show False by simp
  qed
  with eq l show ?thesis by simp
qed

text \<open>C2, witness: the buffer holding t=5 and the update at t=3.\<close>

theorem out_of_order_appended_witness:
  "[candleAt 5 1] \<noteq> [] \<and>
   timestamp (candleAt 3 2) < timestamp (last [candleAt 5 1]) \<and>
   applyUpdate (maxPointsOf ''1m'') [candleAt 5 1] (candleAt 3 2)
     = drop (length [candleAt 5 1] + 1 - nat (maxPointsOf ''1m'')) ([candleAt 5 1] @ [candleAt 3 2]) \<and>
   last (applyUpdate (maxPointsOf ''1m'') [candleAt 5 1] (candleAt 3 2)) = candleAt 3 2 \<and>
   applyUpdate (maxPointsOf ''1m'') [candleAt 5 1] (candleAt 3 2) \<noteq> [candleAt 5 1]"
proof -
  have h1: "[candleAt 5 1] \<noteq> []" by simp
  have h2: "timestamp (candleAt 3 2) < timestamp (last [candleAt 5 1])"
    by (simp add: candleAt_def)
  show ?thesis
    using h1 h2 out_of_order_appended [OF h1 h2, of "''1m''"] by blast
qed

text \<open>
  C3. On applyUpdate to a non-empty buffer, at the capacity configured for any timeframe:
  a candle with the last element's timestamp replaces the last element and the length is
  unchanged; a candle with a greater timestamp is appended and the oldest elements are
  dropped from the front, so that the length is the smaller of the old length plus one
  and the capacity (exactly the capacity when it would be exceeded). With capacity 3,
  candles at t=1,2,3,4 applied in order to the empty buffer leave those at t=2,3,4.
\<close>

theorem applyUpdate_replace_or_append:
  "(prev \<noteq> [] \<and> timestamp c = timestamp (last prev) \<longrightarrow>
      applyUpdate (maxPointsOf tf) prev c = butlast prev @ [c] \<and>
      length (applyUpdate (maxPointsOf tf) prev c) = length prev) \<and>
   (prev \<noteq> [] \<and> timestamp (last prev) < timestamp c \<longrightarrow>
      applyUpdate (maxPointsOf tf) prev c
        = drop (length prev + 1 - nat (maxPointsOf tf)) (prev @ [c]) \<and>
      int (length (applyUpdate (maxPointsOf tf) prev c))
        = min (int (length prev) + 1) (maxPointsOf tf)) \<and>
   foldl (applyUpdate 3) [] [candleAt 1 p1, candleAt 2 p2, candleAt 3 p3, candleAt 4 p4]
     = [candleAt 2 p2, candleAt 3 p3, candleAt 4 p4]"
proof (intro conjI impI)
  assume "prev \<noteq> [] \<and> timestamp c = timestamp (last prev)"
  then have e: "applyUpdate (maxPointsOf tf) prev c = butlast prev @ [c]"
    and ne: "prev \<noteq> []"
    by (simp_all add: applyUpdate_equal)
  show "applyUpdate (maxPointsOf tf) prev c = butlast prev @ [c]" by (rule e)
  show "length (applyUpdate (maxPointsOf tf) prev c) = length prev"
    using ne by (simp add: e)
next
  assume a: "prev \<noteq> [] \<and> timestamp (last prev) < timestamp c"
  have n: "2 \<le> maxPointsOf tf" by (rule maxPointsOf_ge_2)
  show e: "applyUpdate (maxPointsOf tf) prev c
        = drop (length prev + 1 - nat (maxPointsOf tf)) (prev @ [c])"
    using a n by (intro applyUpdate_other) simp_all
  show "int (length (applyUpdate (maxPointsOf tf) prev c))
        = min (int (length prev) + 1) (maxPointsOf tf)"
    using n by (simp add: e)
next
  show "foldl (applyUpdate 3) [] [candleAt 1 p1, candleAt 2 p2, candleAt 3 p3, candleAt 4 p4]
     = [candleAt 2 p2, candleAt 3 p3, candleAt 4 p4]"
    by (simp add: applyUpdate_def candleAt_def slice_def)
qed

text \<open>C3, witness: a revision at t=10 and an append at t=11 on a 5m buffer.\<close>

theorem applyUpdate_replace_or_append_witness:
  "([candleAt 9 0, candleAt 10 1] \<noteq> [] \<and>
      timestamp (candleAt 10 2) = timestamp (last [candleAt 9 0, candleAt 10 1])) \<and>
   applyUpdate (maxPointsOf ''5m'') [candleAt 9 0, candleAt 10 1] (candleAt 10 2)
     = [candleAt 9 0, candleAt 10 2] \<and>
   ([candleAt 9 0, candleAt 10 1] \<noteq> [] \<and>
      timestamp (last [candleAt 9 0, candleAt 10 1]) < timestamp (candleAt 11 3)) \<and>
   applyUpdate (maxPointsOf ''5m'') [candleAt 9 0, candleAt 10 1] (candleAt 11 3)
     = [candleAt 9 0, candleAt 10 1, candleAt 11 3]"
proof -
  have h1: "[candleAt 9 0, candleAt 10 1] \<noteq> [] \<and>
      timestamp (candleAt 10 2) = timestamp (last [candleAt 9 0, candleAt 10 1])"
    by (simp add: candleAt_def)
  have h2: "[candleAt 9 0, candleAt 10 1] \<noteq> [] \<and>
      timestamp (last [candleAt 9 0, candleAt 10 1]) < timestamp (candleAt 11 3)"
    by (simp add: candleAt_def)
  have m: "maxPointsOf ''5m'' = 72"
    by (simp add: maxPointsOf_def MAX_POINTS_def)
  show ?thesis
    using h1 h2
      applyUpdate_replace_or_append [of "[candleAt 9 0, candleAt 10 1]" "candleAt 10 2" "''5m''"]
      applyUpdate_replace_or_append [of "[candleAt 9 0, candleAt 10 1]" "candleAt 11 3" "''5m''"]
    by (simp add: m)
qed

section \<open>Properties of the trade matcher\<close>

lemma matchState_snoc: "matchState (sigs @ [s]) = matchSignal (matchState sigs) s"
  by (simp add: matchState_def)

lemma tradeAt_snoc: "tradeAt sigs p t \<Longrightarrow> tradeAt (sigs @ [s]) p t"
  by (auto simp: tradeAt_def nth_append)

lemma list_all2_tradeAt_snoc:
  "list_all2 (tradeAt sigs) ps ts \<Longrightarrow> list_all2 (tradeAt (sigs @ [s])) ps ts"
  by (erule list_all2_mono) (rule tradeAt_snoc)

lemma matchInv_step:
  assumes "matchInv sigs ps st"
  shows "\<exists>ps'. matchInv (sigs @ [s]) ps' (matchSignal st s)"
proof -
  obtain ts cur where st: "st = (ts, cur)" by (cases st)
  from assms st have pr: "list_all2 (tradeAt sigs) ps ts"
    and so: "sorted_wrt (\<lambda>p q. snd p < fst q) ps"
    and bd: "\<forall>p \<in> set ps. snd p < length sigs"
    and op: "openSlot sigs ps cur"
    by (simp_all add: matchInv_def pairing_def)
  have pr': "list_all2 (tradeAt (sigs @ [s])) ps ts"
    using pr by (rule list_all2_tradeAt_snoc)
  have bd': "\<forall>p \<in> set ps. snd p < length (sigs @ [s])"
    using bd by auto
  show ?thesis
  proof (cases "sig_type s = ''entry'' \<and> cur = None")
    case True
    then have "matchSignal st s = (ts, Some \<lparr>entry = s, exit = None\<rparr>)"
      by (simp add: st)
    moreover have "openSlot (sigs @ [s]) ps (Some \<lparr>entry = s, exit = None\<rparr>)"
      unfolding openSlot_def using bd True
      by (auto intro!: exI [where x = "length sigs"])
    ultimately have "matchInv (sigs @ [s]) ps (matchSignal st s)"
      using pr' so bd' by (simp add: matchInv_def pairing_def)
    then show ?thesis ..
  next
    case no_open: False
    show ?thesis
    proof (cases "sig_type s = ''exit'' \<and> cur \<noteq> None")
      case True
      then obtain t where cur: "cur = Some t" and ex: "sig_type s = ''exit''"
        by auto
      from op cur obtain i where i: "i < length sigs"
        and t: "t = \<lparr>entry = sigs ! i, exit = None\<rparr>"
        and ty: "sig_type (sigs ! i) = ''entry''"
        and after: "\<forall>p \<in> set ps. snd p < i"
        by (auto simp: openSlot_def)
      have step: "matchSignal st s = (ts @ [t\<lparr>exit := Some s\<rparr>], None)"
        using cur ex by (simp add: st)
      have "tradeAt (sigs @ [s]) (i, length sigs) (t\<lparr>exit := Some s\<rparr>)"
        using i t ty ex by (simp add: tradeAt_def nth_append)
      then have "list_all2 (tradeAt (sigs @ [s])) (ps @ [(i, length sigs)])
          (ts @ [t\<lparr>exit := Some s\<rparr>])"
        using pr' by (simp add: list_all2_appendI)
      moreover have "sorted_wrt (\<lambda>p q. snd p < fst q) (ps @ [(i, length sigs)])"
        using so after by (simp add: sorted_wrt_append)
      moreover have "\<forall>p \<in> set (ps @ [(i, length sigs)]). snd p < length (sigs @ [s])"
        using bd' by simp
      ultimately have "matchInv (sigs @ [s]) (ps @ [(i, length sigs)]) (matchSignal st s)"
        by (simp add: step matchInv_def pairing_def openSlot_def)
      then show ?thesis ..
    next
      case False
      with no_open have skips: "matchSignal st s = st"
        by (simp add: st)
      have "openSlot (sigs @ [s]) ps cur"
        using op by (auto simp: openSlot_def nth_append split: option.splits)
      then have "matchInv (sigs @ [s]) ps (matchSignal st s)"
        unfolding skips using pr' so bd' by (simp add: st matchInv_def pairing_def)
      then show ?thesis ..
    qed
  qed
qed

lemma matchInv_matchState: "\<exists>ps. matchInv sigs ps (matchState sigs)"
proof (induction sigs rule: rev_induct)
  case Nil
  have "matchInv [] [] (matchState [])"
    by (simp add: matchInv_def matchState_def pairing_def openSlot_def)
  then show ?case ..
next
  case (snoc s sigs)
  then obtain ps where "matchInv sigs ps (matchState sigs)" ..
  then show ?case
    unfolding matchState_snoc by (rule matchInv_step)
qed

lemma matchTrades_pairing: "\<exists>ps. pairing sigs ps (matchTrades sigs)"
  using matchInv_matchState [of sigs] by (auto simp: matchInv_def matchTrades_def)

lemma matchTrades_trailing_entry:
  "sig_type s = ''entry'' \<Longrightarrow> matchTrades (sigs @ [s]) = matchTrades sigs"
  by (cases "matchState sigs") (simp add: matchTrades_def matchState_snoc)

lemma pairing_exit: "pairing sigs ps ts \<Longrightarrow> t \<in> set ts \<Longrightarrow> exit t \<noteq> None"
  by (auto simp: pairing_def list_all2_conv_all_nth in_set_conv_nth tradeAt_def)

text \<open>
  C4. The matcher handles the signals one at a time, in order, each on the state left by
  the ones before, with one slot for an open trade. An entry opens a trade when the slot
  is empty and is discarded when it is taken; an exit closes the open trade and appends
  it to the output, and is discarded when the slot is empty. A trailing entry adds
  nothing to the output. The output trades sit at positions \<open>(i, j)\<close> of the signal
  list with \<open>i < j\<close>, an entry at \<open>i\<close> and an exit at \<open>j\<close>, each pair before the
  next: every output trade has an exit, after its entry, and the output is in entry order.
\<close>

theorem trade_matcher_single_slot:
  "matchTrades (sigs @ [s]) = fst (matchSignal (matchState sigs) s) \<and>
   (sig_type s = ''entry'' \<longrightarrow>
      matchSignal (ts, None) s = (ts, Some \<lparr>entry = s, exit = None\<rparr>) \<and>
      matchSignal (ts, Some t) s = (ts, Some t)) \<and>
   (sig_type s = ''exit'' \<longrightarrow>
      matchSignal (ts, Some t) s = (ts @ [t\<lparr>exit := Some s\<rparr>], None) \<and>
      matchSignal (ts, None) s = (ts, None)) \<and>
   (sig_type s = ''entry'' \<longrightarrow> matchTrades (sigs @ [s]) = matchTrades sigs) \<and>
   (\<exists>ps. pairing sigs ps (matchTrades sigs)) \<and>
   (\<forall>t \<in> set (matchTrades sigs). exit t \<noteq> None)"
proof -
  have "matchTrades (sigs @ [s]) = fst (matchSignal (matchState sigs) s)"
    by (simp add: matchTrades_def matchState_snoc)
  moreover have "\<forall>t \<in> set (matchTrades sigs). exit t \<noteq> None"
    using matchTrades_pairing [of sigs] pairing_exit by blast
  ultimately show ?thesis
    using matchTrades_pairing [of sigs] matchTrades_trailing_entry [of s sigs]
    by simp
qed

text \<open>
  C4, witness: an entry and an exit on an empty and on a taken slot, and a run with a
  naked exit, a discarded entry and a trailing entry.
\<close>

theorem trade_matcher_single_slot_witness:
  "sig_type (entryAt 3 90) = ''entry'' \<and>
   matchSignal ([], None) (entryAt 3 90) = ([], Some \<lparr>entry = entryAt 3 90, exit = None\<rparr>) \<and>
   matchSignal ([], Some \<lparr>entry = entryAt 1 100, exit = None\<rparr>) (entryAt 3 90)
     = ([], Some \<lparr>entry = entryAt 1 100, exit = None\<rparr>) \<and>
   sig_type (exitAt 2 110) = ''exit'' \<and>
   matchSignal ([], Some \<lparr>entry = entryAt 1 100, exit = None\<rparr>) (exitAt 2 110)
     = ([\<lparr>entry = entryAt 1 100, exit = Some (exitAt 2 110)\<rparr>], None) \<and>
   matchSignal ([], None) (exitAt 2 110) = ([], None) \<and>
   matchTrades ([entryAt 1 100, exitAt 2 110, exitAt 3 90, entryAt 4 80, entryAt 5 70, exitAt 6 60] @ [entryAt 3 90])
     = matchTrades [entryAt 1 100, exitAt 2 110, exitAt 3 90, entryAt 4 80, entryAt 5 70, exitAt 6 60] \<and>
   matchTrades [entryAt 1 100, exitAt 2 110, exitAt 3 90, entryAt 4 80, entryAt 5 70, exitAt 6 60]
     = [\<lparr>entry = entryAt 1 100, exit = Some (exitAt 2 110)\<rparr>,
        \<lparr>entry = entryAt 4 80, exit = Some (exitAt 6 60)\<rparr>] \<and>
   pairing [entryAt 1 100, exitAt 2 110, exitAt 3 90, entryAt 4 80, entryAt 5 70, exitAt 6 60]
     [(0, 1), (3, 5)]
     (matchTrades [entryAt 1 100, exitAt 2 110, exitAt 3 90, entryAt 4 80, entryAt 5 70, exitAt 6 60])"
proof -
  have h1: "sig_type (entryAt 3 90) = ''entry''" by (simp add: entryAt_def)
  have h2: "sig_type (exitAt 2 110) = ''exit''" by (simp add: exitAt_def)
  have m: "matchTrades [entryAt 1 100, exitAt 2 110, exitAt 3 90, entryAt 4 80, entryAt 5 70, exitAt 6 60]
     = [\<lparr>entry = entryAt 1 100, exit = Some (exitAt 2 110)\<rparr>,
        \<lparr>entry = entryAt 4 80, exit = Some (exitAt 6 60)\<rparr>]"
    by (simp add: matchTrades_def matchState_def entryAt_def exitAt_def)
  have p: "pairing [entryAt 1 100, exitAt 2 110, exitAt 3 90, entryAt 4 80, entryAt 5 70, exitAt 6 60]
     [(0, 1), (3, 5)]
     [\<lparr>entry = entryAt 1 100, exit = Some (exitAt 2 110)\<rparr>,
        \<lparr>entry = entryAt 4 80, exit = Some (exitAt 6 60)\<rparr>]"
    by (simp add: pairing_def tradeAt_def entryAt_def exitAt_def)
  have p': "pairing [entryAt 1 100, exitAt 2 110, exitAt 3 90, entryAt 4 80, entryAt 5 70, exitAt 6 60]
     [(0, 1), (3, 5)]
     (matchTrades [entryAt 1 100, exitAt 2 110, exitAt 3 90, entryAt 4 80, entryAt 5 70, exitAt 6 60])"
    unfolding m by (rule p)
  note A = trade_matcher_single_slot [of
        "[entryAt 1 100, exitAt 2 110, exitAt 3 90, entryAt 4 80, entryAt 5 70, exitAt 6 60]"
        "entryAt 3 90" "[]" "\<lparr>entry = entryAt 1 100, exit = None\<rparr>"]
  note B = trade_matcher_single_slot [of
        "[entryAt 1 100, exitAt 2 110, exitAt 3 90, entryAt 4 80, entryAt 5 70, exitAt 6 60]"
        "exitAt 2 110" "[]" "\<lparr>entry = entryAt 1 100, exit = None\<rparr>"]
  from A h1 have a1: "matchSignal ([], None) (entryAt 3 90)
      = ([], Some \<lparr>entry = entryAt 3 90, exit = None\<rparr>)"
    and a2: "matchSignal ([], Some \<lparr>entry = entryAt 1 100, exit = None\<rparr>) (entryAt 3 90)
      = ([], Some \<lparr>entry = entryAt 1 100, exit = None\<rparr>)"
    and a3: "matchTrades ([entryAt 1 100, exitAt 2 110, exitAt 3 90, entryAt 4 80, entryAt 5 70, exitAt 6 60] @ [entryAt 3 90])
      = matchTrades [entryAt 1 100, exitAt 2 110, exitAt 3 90, entryAt 4 80, entryAt 5 70, exitAt 6 60]"
    by blast+
  from B h2 have b1: "matchSignal ([], Some \<lparr>entry = entryAt 1 100, exit = None\<rparr>) (exitAt 2 110)
      = ([\<lparr>entry = entryAt 1 100, exit = Some (exitAt 2 110)\<rparr>], None)"
    and b2: "matchSignal ([], None) (exitAt 2 110) = ([], None)"
    by simp_all
  show ?thesis
    by (intro conjI h1 h2 a1 a2 a3 b1 b2 m p')
qed

section \<open>Rounding to a double\<close>

lemma binary64_eval:
  assumes lo: "2 ^ 52 \<le> \<bar>x\<bar> * 2 ^ k" and hi: "\<bar>x\<bar> * 2 ^ k < 2 ^ 53"
  shows "binary64 x = of_int (rne (x * 2 ^ k)) / 2 ^ k"
proof -
  have x0: "x \<noteq> 0" using lo by auto
  then have pos: "0 < \<bar>x\<bar>" by simp
  have p: "2 powr (real_of_int (52 - int k)) = 2 ^ 52 / 2 ^ k"
    by (simp add: powr_diff powr_realpow)
  have q: "2 powr (real_of_int (52 - int k) + 1) = 2 ^ 53 / 2 ^ k"
    by (simp add: powr_diff powr_add powr_realpow)
  have "2 ^ 52 / 2 ^ k \<le> \<bar>x\<bar>"
    using lo by (simp add: field_simps)
  then have a: "real_of_int (52 - int k) \<le> log 2 \<bar>x\<bar>"
    using pos by (simp only: le_log_iff p [symmetric]) 
  have "\<bar>x\<bar> < 2 ^ 53 / 2 ^ k"
    using hi by (simp add: field_simps)
  then have b: "log 2 \<bar>x\<bar> < real_of_int (52 - int k) + 1"
    using pos by (simp only: log_less_iff q [symmetric])
  have fl: "\<lfloor>log 2 \<bar>x\<bar>\<rfloor> = 52 - int k"
    using a b by (rule floor_unique)
  have s: "2 powr (real_of_int (52 - int k) - 52) = 1 / 2 ^ k"
    by (simp add: powr_minus powr_realpow inverse_eq_divide)
  show ?thesis
    unfolding binary64_def Let_def fl s using x0 by simp
qed

lemma binary64_zero: "binary64 0 = 0"
  by (simp add: binary64_def)

lemma rne_ge_floor: "\<lfloor>y\<rfloor> \<le> rne y"
  by (simp add: rne_def Let_def)

lemma binary64_pos:
  assumes "0 < x"
  shows "0 < binary64 x"
proof -
  define e where "e = \<lfloor>log 2 \<bar>x\<bar>\<rfloor>"
  define u :: real where "u = 2 powr (of_int e - 52)"
  have u: "0 < u" by (simp add: u_def)
  have "of_int e \<le> log 2 x"
    using assms by (simp add: e_def)
  then have "2 powr (of_int e) \<le> x"
    using assms by (simp add: le_log_iff)
  moreover have "2 powr (of_int e) = 2 ^ 52 * u"
    by (simp add: u_def powr_diff powr_realpow)
  ultimately have "2 ^ 52 \<le> x / u"
    using u by (simp add: field_simps)
  then have fl: "(2 ^ 52 :: int) \<le> \<lfloor>x / u\<rfloor>"
    by (simp add: le_floor_iff)
  note fl
  moreover have "(0::int) < 2 ^ 52" by simp
  ultimately have "0 < rne (x / u)"
    using rne_ge_floor [of "x / u"] by linarith
  then have "0 < of_int (rne (x / u)) * u"
    using u by simp
  then show ?thesis
    using assms by (simp add: binary64_def Let_def e_def u_def)
qed

lemma rne_numeral [simp]: "rne (numeral n) = numeral n"
  by (simp add: rne_def)

lemma rne_neg_numeral [simp]: "rne (- numeral n) = - numeral n"
  by (simp add: rne_def)

lemma binary64_example_values:
  "binary64 10 = 10" "binary64 15 = 15" "binary64 (- 5) = - 5" "binary64 (- 2) = - 2"
  "binary64 20 = 20" "binary64 17 = 17"
  using binary64_eval [of 10 49] binary64_eval [of 15 49] binary64_eval [of "- 5" 50]
    binary64_eval [of "- 2" 51] binary64_eval [of 20 48] binary64_eval [of 17 48]
  by simp_all

section \<open>Properties of the performance statistics\<close>

lemma reduceSum_snoc: "reduceSum rnd (xs @ [x]) = rnd (reduceSum rnd xs + x)"
  by (simp add: reduceSum_def)

lemma length_cumulativeSums [simp]: "length (cumulativeSums rnd pnls) = length pnls"
  by (simp add: cumulativeSums_def)

lemma length_runningPeaks [simp]: "length (runningPeaks cs) = length cs"
  by (simp add: runningPeaks_def)

lemma cumulativeSums_snoc:
  "cumulativeSums rnd (xs @ [x]) = cumulativeSums rnd xs @ [reduceSum rnd (xs @ [x])]"
  by (simp add: cumulativeSums_def)

lemma runningPeaks_snoc:
  "runningPeaks (cs @ [c]) = runningPeaks cs @ [Max (set (cs @ [c]))]"
  by (simp add: runningPeaks_def)

lemma drawdowns_snoc:
  "drawdowns rnd (xs @ [x]) =
     drawdowns rnd xs @
       [rnd (Max (set (cumulativeSums rnd (xs @ [x]))) - reduceSum rnd (xs @ [x]))]"
  by (simp add: drawdowns_def cumulativeSums_snoc runningPeaks_snoc del: set_append)

lemma drawdown_loop:
  "foldl (drawdownStep rnd) (None, 0, 0) pnls =
     (if pnls = [] then None else Some (Max (set (cumulativeSums rnd pnls))),
      Max (set (0 # drawdowns rnd pnls)),
      reduceSum rnd pnls)"
proof (induction pnls rule: rev_induct)
  case Nil
  show ?case by (simp add: drawdowns_def cumulativeSums_def runningPeaks_def reduceSum_def)
next
  case (snoc x xs)
  let ?c = "reduceSum rnd (xs @ [x])"
  let ?cs = "cumulativeSums rnd xs"
  let ?m = "Max (set (0 # drawdowns rnd xs))"
  let ?peak = "Max (set (cumulativeSums rnd (xs @ [x])))"
  have c: "rnd (reduceSum rnd xs + x) = ?c"
    by (simp add: reduceSum_snoc)
  have peak: "(case (if xs = [] then None else Some (Max (set ?cs))) of
                 None \<Rightarrow> ?c | Some p \<Rightarrow> if ?c > p then ?c else p) = ?peak"
  proof (cases "xs = []")
    case True
    then show ?thesis by (simp add: cumulativeSums_def)
  next
    case False
    then have "set ?cs \<noteq> {}" by (simp add: cumulativeSums_def)
    then have "Max (insert ?c (set ?cs)) = max ?c (Max (set ?cs))"
      by (intro Max_insert) simp_all
    with False show ?thesis
      by (simp add: cumulativeSums_snoc max_def)
  qed
  have dd: "Max (set (0 # drawdowns rnd (xs @ [x]))) = max ?m (rnd (?peak - ?c))"
  proof -
    have "set (0 # drawdowns rnd (xs @ [x])) =
        insert (rnd (?peak - ?c)) (set (0 # drawdowns rnd xs))"
      by (simp add: drawdowns_snoc del: set_append) auto
    moreover have "Max (insert (rnd (?peak - ?c)) (set (0 # drawdowns rnd xs)))
        = max (rnd (?peak - ?c)) ?m"
      by (intro Max_insert) simp_all
    ultimately show ?thesis by (simp add: max.commute)
  qed
  define m where "m = ?m"
  define pk where "pk = ?peak"
  define c' where "c' = ?c"
  define st where "st = (if xs = [] then None else Some (Max (set ?cs)))"
  have "foldl (drawdownStep rnd) (None, 0, 0) (xs @ [x]) =
      drawdownStep rnd (st, m, reduceSum rnd xs) x"
    by (simp add: snoc.IH m_def st_def)
  also have "\<dots> = (Some pk, max m (rnd (pk - c')), c')"
    using c peak unfolding m_def [symmetric] pk_def [symmetric] c'_def [symmetric] st_def [symmetric]
    by (auto simp add: max_def Let_def)
  finally show ?case
    unfolding dd m_def pk_def c'_def by simp
qed

lemma maxDrawdownOf_spec: "maxDrawdownOf rnd pnls = Max (set (0 # drawdowns rnd pnls))"
  by (simp add: maxDrawdownOf_def drawdown_loop)

lemma maxDrawdownOf_nonneg: "0 \<le> maxDrawdownOf rnd pnls"
  unfolding maxDrawdownOf_spec by (rule Max_ge) simp_all

lemma reduceSum_exact: "reduceSum exact xs = sum_list xs"
proof -
  have "foldl (\<lambda>sum pnl. sum + pnl) a xs = a + sum_list xs" for a :: real
    by (induction xs arbitrary: a) simp_all
  then show ?thesis by (simp add: reduceSum_def exact_def)
qed

lemma tradePnL_closed:
  assumes "\<forall>t \<in> set trades. exit t \<noteq> None"
  shows "tradePnL rnd trades =
     Inr (map (\<lambda>t. rnd (rnd (rnd (price (the (exit t)) - price (entry t)) / price (entry t)) * 100))
            trades)"
  using assms
  by (induction trades) (auto simp: pnlOf_def Let_def)

lemma filter_three_way:
  "length xs = length (filter (\<lambda>p. p > 0) xs) + length (filter (\<lambda>p. p < 0) xs)
      + length (filter (\<lambda>p. p = (0::real)) xs)"
  by (induction xs) auto

lemma statsOf_fields:
  "totalTrades (statsOf rnd pnls) = length pnls"
  "winningTrades (statsOf rnd pnls) = length (filter (\<lambda>pnl. pnl > 0) pnls)"
  "losingTrades (statsOf rnd pnls) = length (filter (\<lambda>pnl. pnl < 0) pnls)"
  "winRate (statsOf rnd pnls) =
     (if pnls = [] then 0
      else rnd (rnd (real (length (filter (\<lambda>pnl. pnl > 0) pnls)) / real (length pnls)) * 100))"
  "totalProfitLoss (statsOf rnd pnls) = reduceSum rnd pnls"
  "avgProfit (statsOf rnd pnls) =
     (if filter (\<lambda>pnl. pnl > 0) pnls = [] then 0
      else rnd (reduceSum rnd (filter (\<lambda>pnl. pnl > 0) pnls)
                / real (length (filter (\<lambda>pnl. pnl > 0) pnls))))"
  "avgLoss (statsOf rnd pnls) =
     (if filter (\<lambda>pnl. pnl < 0) pnls = [] then 0
      else rnd (reduceSum rnd (filter (\<lambda>pnl. pnl < 0) pnls)
                / real (length (filter (\<lambda>pnl. pnl < 0) pnls))))"
  "maxDrawdown (statsOf rnd pnls) = maxDrawdownOf rnd pnls"
  "sharpeRatio (statsOf rnd pnls) = sharpeRatioOf rnd pnls"
  by (simp_all add: statsOf_def Let_def)

text \<open>
  C7. For every non-empty list of closed trades with non-zero entry prices the calculator
  returns a record (no throw) in which: the per-trade return is
  \<open>(exit.price - entry.price) / entry.price * 100\<close>; winRate is the number of returns
  \<open>> 0\<close> over totalTrades, times 100; avgProfit is the mean of the returns \<open>> 0\<close>
  (0 if there are none) and avgLoss the mean of the returns \<open>< 0\<close> (0 if none); a return
  of exactly 0 counts toward totalTrades and toward neither bucket. Each formula is
  evaluated left to right with every operation rounded by \<open>rnd\<close>; in exact arithmetic
  they are the formulas as written, the mean being the sum over the count.
\<close>

theorem performance_stats:
  assumes "trades \<noteq> []"
    and "\<forall>t \<in> set trades. exit t \<noteq> None"
    and "\<forall>t \<in> set trades. price (entry t) \<noteq> 0"
    and "pnls = map (\<lambda>t. rnd (rnd (rnd (price (the (exit t)) - price (entry t))
                              / price (entry t)) * 100)) trades"
    and "wins = filter (\<lambda>pnl. pnl > 0) pnls"
    and "losses = filter (\<lambda>pnl. pnl < 0) pnls"
  shows "\<exists>st. performanceOf rnd trades = Inr st \<and>
      totalTrades st = length trades \<and>
      winningTrades st = length wins \<and>
      losingTrades st = length losses \<and>
      totalTrades st = winningTrades st + losingTrades st + length (filter (\<lambda>pnl. pnl = 0) pnls) \<and>
      winRate st = rnd (rnd (real (length wins) / real (totalTrades st)) * 100) \<and>
      avgProfit st = (if wins = [] then 0 else rnd (reduceSum rnd wins / real (length wins))) \<and>
      avgLoss st = (if losses = [] then 0 else rnd (reduceSum rnd losses / real (length losses))) \<and>
      (rnd = exact \<longrightarrow>
         pnls = map (\<lambda>t. (price (the (exit t)) - price (entry t)) / price (entry t) * 100) trades \<and>
         winRate st = real (length wins) / real (totalTrades st) * 100 \<and>
         avgProfit st = (if wins = [] then 0 else sum_list wins / real (length wins)) \<and>
         avgLoss st = (if losses = [] then 0 else sum_list losses / real (length losses)))"
proof -
  have p: "performanceOf rnd trades = Inr (statsOf rnd pnls)"
    using assms(1,2,4) by (simp add: performanceOf_def tradePnL_closed)
  have n: "length pnls = length trades" "0 < length trades" "pnls \<noteq> []"
    using assms(1,4) by simp_all
  have ex: "pnls = map (\<lambda>t. (price (the (exit t)) - price (entry t)) / price (entry t) * 100) trades"
    if "rnd = exact"
    using that assms(4) by (simp add: exact_def)
  show ?thesis
  proof (intro exI conjI impI)
    show "performanceOf rnd trades = Inr (statsOf rnd pnls)" by (rule p)
    show "totalTrades (statsOf rnd pnls) = length trades"
      using n by (simp add: statsOf_fields)
    show "winningTrades (statsOf rnd pnls) = length wins"
      using assms(5) by (simp add: statsOf_fields)
    show "losingTrades (statsOf rnd pnls) = length losses"
      using assms(6) by (simp add: statsOf_fields)
    show "totalTrades (statsOf rnd pnls) =
        winningTrades (statsOf rnd pnls) + losingTrades (statsOf rnd pnls)
          + length (filter (\<lambda>pnl. pnl = 0) pnls)"
      using filter_three_way [of pnls] by (simp add: statsOf_fields)
    show "winRate (statsOf rnd pnls) =
        rnd (rnd (real (length wins) / real (totalTrades (statsOf rnd pnls))) * 100)"
      using n assms(5) by (simp add: statsOf_fields)
    show "avgProfit (statsOf rnd pnls) =
        (if wins = [] then 0 else rnd (reduceSum rnd wins / real (length wins)))"
      using assms(5) by (simp add: statsOf_fields)
    show "avgLoss (statsOf rnd pnls) =
        (if losses = [] then 0 else rnd (reduceSum rnd losses / real (length losses)))"
      using assms(6) by (simp add: statsOf_fields)
    show "pnls = map (\<lambda>t. (price (the (exit t)) - price (entry t)) / price (entry t) * 100) trades"
      if "rnd = exact"
      using that by (rule ex)
    show "winRate (statsOf rnd pnls) = real (length wins) / real (totalTrades (statsOf rnd pnls)) * 100"
      if "rnd = exact"
      using that n assms(5) by (simp add: statsOf_fields exact_def)
    show "avgProfit (statsOf rnd pnls) = (if wins = [] then 0 else sum_list wins / real (length wins))"
      if "rnd = exact"
      using assms(5) unfolding that by (simp add: statsOf_fields reduceSum_exact exact_def)
    show "avgLoss (statsOf rnd pnls) = (if losses = [] then 0 else sum_list losses / real (length losses))"
      if "rnd = exact"
      using assms(6) unfolding that by (simp add: statsOf_fields reduceSum_exact exact_def)
  qed
qed

text \<open>
  C7, witness: the spec's matching example, entry at 100 and exit at 110, entry at 90 and
  exit at 80: returns +10 and -100/9, win rate 50.
\<close>

theorem performance_stats_witness:
  "matchTrades [entryAt 1 100, exitAt 2 110, entryAt 3 90, exitAt 4 80] = exampleTrades \<and>
   exampleTrades \<noteq> [] \<and>
   list_all (\<lambda>t. exit t \<noteq> None) exampleTrades \<and>
   list_all (\<lambda>t. price (entry t) \<noteq> 0) exampleTrades \<and>
   (\<exists>st. performanceOf exact exampleTrades = Inr st \<and>
      totalTrades st = 2 \<and> winningTrades st = 1 \<and> losingTrades st = 1 \<and>
      winRate st = 50 \<and> avgProfit st = 10 \<and> avgLoss st = - (100 / 9))"
proof -
  have m: "matchTrades [entryAt 1 100, exitAt 2 110, entryAt 3 90, exitAt 4 80] = exampleTrades"
    by (simp add: matchTrades_def matchState_def entryAt_def exitAt_def exampleTrades_def)
  have h1: "exampleTrades \<noteq> []" by (simp add: exampleTrades_def)
  have h2: "\<forall>t \<in> set exampleTrades. exit t \<noteq> None" by (simp add: exampleTrades_def)
  have h3: "\<forall>t \<in> set exampleTrades. price (entry t) \<noteq> 0"
    by (simp add: exampleTrades_def entryAt_def)
  have pn: "map (\<lambda>t. exact (exact (exact (price (the (exit t)) - price (entry t))
                              / price (entry t)) * 100)) exampleTrades = [10, - (100 / 9)]"
    by (simp add: exampleTrades_def entryAt_def exitAt_def exact_def)
  obtain st where st: "performanceOf exact exampleTrades = Inr st"
    "totalTrades st = length exampleTrades"
    "winningTrades st = length (filter (\<lambda>pnl. pnl > 0) [10, - (100 / 9) :: real])"
    "losingTrades st = length (filter (\<lambda>pnl. pnl < 0) [10, - (100 / 9) :: real])"
    "winRate st = real (length (filter (\<lambda>pnl. pnl > 0) [10, - (100 / 9) :: real])) / real (totalTrades st) * 100"
    "avgProfit st = (if filter (\<lambda>pnl. pnl > 0) [10, - (100 / 9) :: real] = [] then 0
       else sum_list (filter (\<lambda>pnl. pnl > 0) [10, - (100 / 9) :: real])
            / real (length (filter (\<lambda>pnl. pnl > 0) [10, - (100 / 9) :: real])))"
    "avgLoss st = (if filter (\<lambda>pnl. pnl < 0) [10, - (100 / 9) :: real] = [] then 0
       else sum_list (filter (\<lambda>pnl. pnl < 0) [10, - (100 / 9) :: real])
            / real (length (filter (\<lambda>pnl. pnl < 0) [10, - (100 / 9) :: real])))"
    using performance_stats [OF h1 h2 h3 pn [symmetric] refl refl] by blast
  have "totalTrades st = 2 \<and> winningTrades st = 1 \<and> losingTrades st = 1 \<and>
      winRate st = 50 \<and> avgProfit st = 10 \<and> avgLoss st = - (100 / 9)"
    using st(2-) by (simp add: exampleTrades_def)
  with st(1) m h1 h2 h3 show ?thesis
    by (auto simp: list_all_iff)
qed

text \<open>
  C8 (as stated, refuted). For the empty signal list the matcher's output is empty, and
  \<open>calculateMetrics\<close> returns \<open>null\<close>, not a record of zeros: the first line of the
  function returns before any record is built.
\<close>

theorem empty_trades_counterexample:
  "matchTrades [] = [] \<and>
   calculateMetrics exact [] [] = Inr None \<and>
   calculateMetrics exact [] [] \<noteq> Inr (Some zeroStats)"
  by (simp add: matchTrades_def matchState_def calculateMetrics_def)

text \<open>
  C8 (amended). Whenever the signal list is not empty and the matcher produces an empty
  trade list, \<open>calculateMetrics\<close> returns the record in which every count and rate is
  0, with no throw and no division (the record is a literal); so does the calculator part
  on the empty trade list. For the empty signal list \<open>calculateMetrics\<close> returns
  \<open>null\<close>.
\<close>

theorem empty_trades_zero_stats:
  "(signalData \<noteq> [] \<and> matchTrades signalData = [] \<longrightarrow>
      calculateMetrics rnd priceData signalData =
        Inr (Some \<lparr>totalTrades = 0, winningTrades = 0, losingTrades = 0, winRate = 0,
                    totalProfitLoss = 0, avgProfit = 0, avgLoss = 0, maxDrawdown = 0,
                    sharpeRatio = 0\<rparr>)) \<and>
   performanceOf rnd [] =
     Inr \<lparr>totalTrades = 0, winningTrades = 0, losingTrades = 0, winRate = 0,
          totalProfitLoss = 0, avgProfit = 0, avgLoss = 0, maxDrawdown = 0, sharpeRatio = 0\<rparr> \<and>
   calculateMetrics rnd priceData [] = Inr None"
  by (simp add: calculateMetrics_def performanceOf_def zeroStats_def)

text \<open>C8, witness: a naked exit followed by a trailing entry.\<close>

theorem empty_trades_zero_stats_witness:
  "([exitAt 1 100, entryAt 2 90] \<noteq> [] \<and> matchTrades [exitAt 1 100, entryAt 2 90] = []) \<and>
   calculateMetrics binary64 [] [exitAt 1 100, entryAt 2 90] =
     Inr (Some \<lparr>totalTrades = 0, winningTrades = 0, losingTrades = 0, winRate = 0,
                 totalProfitLoss = 0, avgProfit = 0, avgLoss = 0, maxDrawdown = 0,
                 sharpeRatio = 0\<rparr>)"
proof -
  have h: "[exitAt 1 100, entryAt 2 90] \<noteq> [] \<and> matchTrades [exitAt 1 100, entryAt 2 90] = []"
    by (simp add: matchTrades_def matchState_def entryAt_def exitAt_def)
  show ?thesis
    using h empty_trades_zero_stats [of "[exitAt 1 100, entryAt 2 90]" binary64 "[]"]
    by blast
qed

lemma drawdowns_exact_nonneg:
  assumes "d \<in> set (drawdowns exact pnls)"
  shows "0 \<le> d"
proof -
  let ?cs = "cumulativeSums exact pnls"
  from assms obtain k where k: "k < length ?cs"
    and d: "d = runningPeaks ?cs ! k - ?cs ! k"
    by (auto simp: drawdowns_def in_set_conv_nth exact_def)
  have "?cs ! k \<in> set (take (Suc k) ?cs)"
    using k by (simp add: take_Suc_conv_app_nth)
  then have "?cs ! k \<le> Max (set (take (Suc k) ?cs))"
    by (intro Max_ge) simp_all
  with k d show ?thesis
    by (simp add: runningPeaks_def)
qed

lemma maxDrawdownOf_exact:
  assumes "pnls \<noteq> []"
  shows "maxDrawdownOf exact pnls = Max (set (drawdowns exact pnls))"
proof -
  have "length (drawdowns exact pnls) = length pnls"
    by (simp add: drawdowns_def)
  with assms have nl: "drawdowns exact pnls \<noteq> []"
    by (metis length_0_conv)
  then have ne: "set (drawdowns exact pnls) \<noteq> {}" by simp
  define d where "d = hd (drawdowns exact pnls)"
  have d: "d \<in> set (drawdowns exact pnls)"
    unfolding d_def using nl by (rule hd_in_set)
  have "0 \<le> d" using d by (rule drawdowns_exact_nonneg)
  also have "d \<le> Max (set (drawdowns exact pnls))"
    using d by (intro Max_ge) simp_all
  finally have "max 0 (Max (set (drawdowns exact pnls))) = Max (set (drawdowns exact pnls))"
    by simp
  moreover have "Max (insert 0 (set (drawdowns exact pnls))) = max 0 (Max (set (drawdowns exact pnls)))"
    using ne by (intro Max_insert) simp_all
  ultimately show ?thesis
    by (simp add: maxDrawdownOf_spec)
qed

text \<open>
  C6. maxDrawdown is the greatest of 0 and the drawdowns, where the drawdown at each step
  is the running peak of the cumulative sums minus the cumulative sum at that step, the
  sums taken in trade order; it is never negative; in exact arithmetic every drawdown is
  non-negative and, for a non-empty list, maxDrawdown is the greatest drawdown. For the
  returns +10, +5, -20, +3 the cumulative sums are 10, 15, -5, -2, the peaks 10, 15, 15,
  15, the drawdowns 0, 0, 20, 17 and maxDrawdown is 20, in exact and in double arithmetic.
\<close>

theorem maxDrawdown_walk:
  "maxDrawdown (statsOf rnd pnls) = Max (set (0 # drawdowns rnd pnls)) \<and>
   0 \<le> maxDrawdown (statsOf rnd pnls) \<and>
   (pnls \<noteq> [] \<longrightarrow> maxDrawdown (statsOf exact pnls) = Max (set (drawdowns exact pnls))) \<and>
   cumulativeSums exact [10, 5, -20, 3] = [10, 15, -5, -2] \<and>
   runningPeaks (cumulativeSums exact [10, 5, -20, 3]) = [10, 15, 15, 15] \<and>
   drawdowns exact [10, 5, -20, 3] = [0, 0, 20, 17] \<and>
   maxDrawdown (statsOf exact [10, 5, -20, 3]) = 20 \<and>
   maxDrawdown (statsOf binary64 [10, 5, -20, 3]) = 20"
proof -
  have c: "cumulativeSums exact [10, 5, -20, 3] = [10, 15, -5, -2]"
    by (simp add: cumulativeSums_def reduceSum_def exact_def upt_rec)
  have p: "runningPeaks [10, 15, -5, -2] = [10, 15, 15, 15]"
    by (simp add: runningPeaks_def upt_rec)
  have d: "drawdowns exact [10, 5, -20, 3] = [0, 0, 20, 17]"
    by (simp add: drawdowns_def c p exact_def)
  have "maxDrawdownOf exact [10, 5, -20, 3] = 20"
    by (simp add: maxDrawdownOf_def exact_def)
  moreover have "maxDrawdownOf binary64 [10, 5, -20, 3] = 20"
    by (simp add: maxDrawdownOf_def binary64_example_values binary64_zero)
  ultimately show ?thesis
    using maxDrawdownOf_spec [of rnd pnls] maxDrawdownOf_nonneg [of rnd pnls]
      maxDrawdownOf_exact [of pnls] c p d
    by (simp add: statsOf_fields)
qed

text \<open>C6, witness: the spec's drawdown example.\<close>

theorem maxDrawdown_walk_witness:
  "[10, 5, -20, 3 :: real] \<noteq> [] \<and>
   maxDrawdown (statsOf exact [10, 5, -20, 3]) = Max (set (drawdowns exact [10, 5, -20, 3])) \<and>
   maxDrawdown (statsOf exact [10, 5, -20, 3]) = 20"
  using maxDrawdown_walk [of exact "[10, 5, -20, 3]"] by simp

section \<open>Double rounding and the Sharpe ratio\<close>

lemma binary64_one: "binary64 1 = 1"
  using binary64_eval [of 1 52] by simp

lemma binary64_thousandth: "binary64 (1 / 1000) = 1152921504606847 / 2 ^ 60"
  using binary64_eval [of "1 / 1000" 62] by (simp add: rne_def)

lemma binary64_times_100: "binary64 (1152921504606847 / 2 ^ 60 * 100) = oneTenth"
  using binary64_eval [of "1152921504606847 / 2 ^ 60 * 100" 56]
  by (simp add: rne_def oneTenth_def)

lemma binary64_oneTenth: "binary64 oneTenth = oneTenth"
  using binary64_eval [of oneTenth 56] by (simp add: oneTenth_def)

lemma binary64_twice: "binary64 (oneTenth + oneTenth) = 3602879701896397 / 2 ^ 54"
  using binary64_eval [of "oneTenth + oneTenth" 55] by (simp add: oneTenth_def)

lemma binary64_thrice: "binary64 (3602879701896397 / 2 ^ 54 + oneTenth) = 1351079888211149 / 2 ^ 52"
  using binary64_eval [of "3602879701896397 / 2 ^ 54 + oneTenth" 54]
  by (simp add: oneTenth_def rne_def)

lemma binary64_third: "binary64 (1351079888211149 / 2 ^ 52 / 3) = 7205759403792795 / 2 ^ 56"
  using binary64_eval [of "1351079888211149 / 2 ^ 52 / 3" 56]
  by (simp add: rne_def)

lemma binary64_deviation: "binary64 (oneTenth - 7205759403792795 / 2 ^ 56) = - (1 / 2 ^ 56)"
  using binary64_eval [of "oneTenth - 7205759403792795 / 2 ^ 56" 108]
  by (simp add: rne_def oneTenth_def)

lemma statsOf_sharpeRatio: "sharpeRatio (statsOf rnd pnls) = sharpeRatioOf rnd pnls"
  by (simp add: statsOf_def Let_def)

lemma pnl_flat_value: "binary64 (binary64 (binary64 (1001 - 1000) / 1000) * 100) = oneTenth"
proof -
  have "binary64 (1001 - 1000) = 1" using binary64_one by simp
  then have "binary64 (binary64 (1001 - 1000) / 1000) = 1152921504606847 / 2 ^ 60"
    by (simp only: binary64_thousandth)
  then show ?thesis by (simp only: binary64_times_100)
qed

lemma pnlOf_flat:
  "pnlOf binary64 \<lparr>entry = entryAt t 1000, exit = Some (exitAt t' 1001)\<rparr> = Inr oneTenth"
  unfolding pnlOf_def entryAt_def exitAt_def Let_def
  by (simp only: trade.select_convs signal.select_convs option.case pnl_flat_value)

lemma matchTrades_flat:
  "matchTrades flatSignals =
     [\<lparr>entry = entryAt 1 1000, exit = Some (exitAt 2 1001)\<rparr>,
      \<lparr>entry = entryAt 3 1000, exit = Some (exitAt 4 1001)\<rparr>,
      \<lparr>entry = entryAt 5 1000, exit = Some (exitAt 6 1001)\<rparr>]"
  by (simp add: matchTrades_def matchState_def flatSignals_def entryAt_def exitAt_def)

lemma tradePnL_flat:
  "tradePnL binary64 (matchTrades flatSignals) = Inr [oneTenth, oneTenth, oneTenth]"
  by (simp add: matchTrades_flat pnlOf_flat)

lemma reduceSum_flat:
  "reduceSum binary64 [oneTenth, oneTenth, oneTenth] = 1351079888211149 / 2 ^ 52"
  by (simp only: reduceSum_def foldl.simps add_0 binary64_oneTenth binary64_twice binary64_thrice)

lemma avgReturnOf_flat:
  "avgReturnOf binary64 [oneTenth, oneTenth, oneTenth] = 7205759403792795 / 2 ^ 56"
proof -
  have "real (length [oneTenth, oneTenth, oneTenth]) = 3" by simp
  then show ?thesis
    by (simp only: avgReturnOf_def reduceSum_flat binary64_third)
qed

lemma foldl_rounded_pos:
  assumes pos: "\<And>x. 0 < x \<Longrightarrow> 0 < rnd x"
    and "0 \<le> (s::real)" and "xs \<noteq> []" and "\<forall>p \<in> set xs. 0 < g p"
  shows "0 < foldl (\<lambda>sum pnl. rnd (sum + g pnl)) s xs"
  using assms(2-)
proof (induction xs arbitrary: s)
  case Nil
  then show ?case by simp
next
  case (Cons x xs)
  have s': "0 < rnd (s + g x)"
  proof (rule pos)
    from Cons.prems have "0 \<le> s" "0 < g x" by simp_all
    then show "0 < s + g x" by (rule add_nonneg_pos)
  qed
  show ?case
  proof (cases "xs = []")
    case True
    with s' show ?thesis by simp
  next
    case False
    with Cons.prems s' have "0 < foldl (\<lambda>sum pnl. rnd (sum + g pnl)) (rnd (s + g x)) xs"
      by (intro Cons.IH) simp_all
    then show ?thesis by simp
  qed
qed

lemma varianceOf_pos:
  assumes pos: "\<And>x. 0 < x \<Longrightarrow> 0 < rnd x"
    and "pnls \<noteq> []"
    and "\<forall>p \<in> set pnls. rnd (p - avgReturnOf rnd pnls) \<noteq> 0"
  shows "0 < varianceOf rnd pnls"
proof -
  let ?a = "avgReturnOf rnd pnls"
  have "\<forall>p \<in> set pnls. 0 < rnd ((rnd (p - ?a)) ^ 2)"
    using assms(3) by (auto intro!: pos)
  then have "0 < foldl (\<lambda>sum pnl. rnd (sum + rnd ((rnd (pnl - ?a)) ^ 2))) 0 pnls"
    using assms(2) by (intro foldl_rounded_pos pos) simp_all
  then have "0 < rnd (foldl (\<lambda>sum pnl. rnd (sum + rnd ((rnd (pnl - ?a)) ^ 2))) 0 pnls
      / real (length pnls))"
    using assms(2) by (intro pos) simp
  then show ?thesis
    by (simp add: varianceOf_def Let_def)
qed

lemma varianceOf_flat: "0 < varianceOf binary64 [oneTenth, oneTenth, oneTenth]"
proof -
  have "binary64 (oneTenth - avgReturnOf binary64 [oneTenth, oneTenth, oneTenth]) \<noteq> 0"
    by (simp only: avgReturnOf_flat binary64_deviation) simp
  then show ?thesis
    by (intro varianceOf_pos binary64_pos) simp_all
qed

lemma stdDevOf_flat: "0 < stdDevOf binary64 [oneTenth, oneTenth, oneTenth]"
  unfolding stdDevOf_def using varianceOf_flat by (intro binary64_pos) simp

lemma sharpe_flat: "0 < sharpeRatioOf binary64 [oneTenth, oneTenth, oneTenth]"
proof -
  let ?a = "avgReturnOf binary64 [oneTenth, oneTenth, oneTenth]"
  let ?s = "stdDevOf binary64 [oneTenth, oneTenth, oneTenth]"
  have "0 < ?a" by (simp only: avgReturnOf_flat) simp
  then have "0 < binary64 (?a / ?s)"
    using stdDevOf_flat by (intro binary64_pos) simp
  moreover have "0 < binary64 (sqrt 252)"
    by (intro binary64_pos) simp
  ultimately have "0 < binary64 (binary64 (?a / ?s) * binary64 (sqrt 252))"
    by (intro binary64_pos) simp
  with stdDevOf_flat show ?thesis
    by (simp add: sharpeRatioOf_def Let_def)
qed

text \<open>
  C5 (as stated, refuted). Three trades, each entered at 1000 and left at 1001, have the
  identical return \<open>oneTenth\<close> (the double written 0.1). Their sum rounds to
  0.30000000000000004 and the mean to 0.10000000000000002, which is not the return, so
  the deviations are not 0, the computed stdDev is positive and sharpeRatio is not 0.
  Every intermediate value lies in the range of normal doubles.
\<close>

theorem sharpe_identical_pnl_counterexample:
  "tradePnL binary64 (matchTrades flatSignals) = Inr [oneTenth, oneTenth, oneTenth] \<and>
   calculateMetrics binary64 [] flatSignals
     = Inr (Some (statsOf binary64 [oneTenth, oneTenth, oneTenth])) \<and>
   avgReturnOf binary64 [oneTenth, oneTenth, oneTenth] \<noteq> oneTenth \<and>
   0 < stdDevOf binary64 [oneTenth, oneTenth, oneTenth] \<and>
   sharpeRatio (statsOf binary64 [oneTenth, oneTenth, oneTenth]) \<noteq> 0"
proof -
  have "length flatSignals \<noteq> 0" by (simp add: flatSignals_def)
  moreover have "length (matchTrades flatSignals) \<noteq> 0" by (simp add: matchTrades_flat)
  ultimately have "calculateMetrics binary64 [] flatSignals
     = Inr (Some (statsOf binary64 [oneTenth, oneTenth, oneTenth]))"
    by (simp add: calculateMetrics_def performanceOf_def tradePnL_flat)
  moreover have "avgReturnOf binary64 [oneTenth, oneTenth, oneTenth] \<noteq> oneTenth"
    by (simp only: avgReturnOf_flat) (simp add: oneTenth_def)
  ultimately show ?thesis
    using tradePnL_flat sharpe_flat stdDevOf_flat by (simp add: statsOf_sharpeRatio)
qed

lemma foldl_squares_exact:
  "foldl (\<lambda>sum pnl. sum + (pnl - a) ^ 2) s xs = s + (\<Sum>x\<leftarrow>xs. (x - a) ^ 2)" for s :: real
  by (induction xs arbitrary: s) simp_all

lemma avgReturnOf_exact: "avgReturnOf exact pnls = sum_list pnls / real (length pnls)"
  by (simp add: avgReturnOf_def reduceSum_exact) (simp add: exact_def)

lemma varianceOf_exact: "varianceOf exact pnls = populationVariance pnls"
  unfolding varianceOf_def Let_def avgReturnOf_exact populationVariance_def
  by (simp add: exact_def foldl_squares_exact)

lemma stdDevOf_exact: "stdDevOf exact pnls = sqrt (populationVariance pnls)"
  by (simp add: stdDevOf_def varianceOf_exact) (simp add: exact_def)

lemma foldl_zero_terms:
  assumes "\<forall>p \<in> set xs. f 0 p = (0::real)"
  shows "foldl f 0 xs = 0"
  using assms by (induction xs) simp_all

lemma stdDevOf_identical:
  assumes "\<forall>p \<in> set pnls. p = c" and "avgReturnOf rnd pnls = c" and "rnd 0 = 0"
  shows "stdDevOf rnd pnls = 0"
proof -
  have "foldl (\<lambda>sum pnl. rnd (sum + rnd ((rnd (pnl - c)) ^ 2))) 0 pnls = 0"
    using assms(1,3) by (intro foldl_zero_terms) simp
  then show ?thesis
    using assms(2,3) by (simp add: stdDevOf_def varianceOf_def Let_def)
qed

lemma avgReturnOf_exact_identical:
  assumes "pnls \<noteq> []" and "\<forall>p \<in> set pnls. p = c"
  shows "avgReturnOf exact pnls = c"
proof -
  have "sum_list pnls = real (length pnls) * c"
    using assms(2) by (induction pnls) (simp_all add: algebra_simps)
  then show ?thesis
    using assms(1) by (simp add: avgReturnOf_exact)
qed

text \<open>
  C5 (amended). For every non-empty list of per-trade returns, with avgReturn =
  totalProfitLoss / totalTrades and stdDev the square root of the population variance
  (divisor totalTrades), every operation rounded by \<open>rnd\<close>: sharpeRatio is
  \<open>(avgReturn / stdDev) * sqrt 252\<close> when the computed stdDev is positive and exactly
  0 when the computed stdDev is 0. In exact arithmetic avgReturn is the sum over the
  count, stdDev is the square root of the population variance, and identical returns
  give stdDev 0 and sharpeRatio 0. Under a rounding that keeps 0, identical returns give
  stdDev 0 and sharpeRatio 0 when the computed avgReturn equals the common return.
\<close>

theorem sharpe_ratio_amended:
  assumes "pnls \<noteq> []"
  shows "(0 < stdDevOf rnd pnls \<longrightarrow>
            sharpeRatio (statsOf rnd pnls)
              = rnd (rnd (avgReturnOf rnd pnls / stdDevOf rnd pnls) * rnd (sqrt 252))) \<and>
         (stdDevOf rnd pnls = 0 \<longrightarrow> sharpeRatio (statsOf rnd pnls) = 0) \<and>
         avgReturnOf rnd pnls
           = rnd (totalProfitLoss (statsOf rnd pnls) / real (totalTrades (statsOf rnd pnls))) \<and>
         avgReturnOf exact pnls = sum_list pnls / real (length pnls) \<and>
         stdDevOf exact pnls = sqrt (populationVariance pnls) \<and>
         (0 < stdDevOf exact pnls \<longrightarrow>
            sharpeRatio (statsOf exact pnls)
              = (sum_list pnls / real (length pnls)) / sqrt (populationVariance pnls) * sqrt 252) \<and>
         ((\<forall>p \<in> set pnls. p = c) \<longrightarrow>
            stdDevOf exact pnls = 0 \<and> sharpeRatio (statsOf exact pnls) = 0) \<and>
         ((\<forall>p \<in> set pnls. p = c) \<and> avgReturnOf rnd pnls = c \<and> rnd 0 = 0 \<longrightarrow>
            stdDevOf rnd pnls = 0 \<and> sharpeRatio (statsOf rnd pnls) = 0)"
proof (intro conjI impI)
  show "sharpeRatio (statsOf rnd pnls)
      = rnd (rnd (avgReturnOf rnd pnls / stdDevOf rnd pnls) * rnd (sqrt 252))"
    if "0 < stdDevOf rnd pnls"
    using that by (simp add: statsOf_sharpeRatio sharpeRatioOf_def Let_def)
  show "sharpeRatio (statsOf rnd pnls) = 0" if "stdDevOf rnd pnls = 0"
    using that by (simp add: statsOf_sharpeRatio sharpeRatioOf_def Let_def)
  show "avgReturnOf rnd pnls
      = rnd (totalProfitLoss (statsOf rnd pnls) / real (totalTrades (statsOf rnd pnls)))"
    by (simp add: statsOf_def Let_def avgReturnOf_def)
  show "avgReturnOf exact pnls = sum_list pnls / real (length pnls)"
    by (rule avgReturnOf_exact)
  show "stdDevOf exact pnls = sqrt (populationVariance pnls)"
    by (rule stdDevOf_exact)
  show "sharpeRatio (statsOf exact pnls)
      = (sum_list pnls / real (length pnls)) / sqrt (populationVariance pnls) * sqrt 252"
    if "0 < stdDevOf exact pnls"
    using that unfolding statsOf_sharpeRatio sharpeRatioOf_def Let_def
    by (simp add: stdDevOf_exact avgReturnOf_exact) (simp add: exact_def)
  have ex0: "exact 0 = 0" by (simp add: exact_def)
  show e: "stdDevOf exact pnls = 0" if "\<forall>p \<in> set pnls. p = c"
    using that assms avgReturnOf_exact_identical ex0 by (intro stdDevOf_identical) auto
  show "sharpeRatio (statsOf exact pnls) = 0" if "\<forall>p \<in> set pnls. p = c"
    using e [OF that] by (simp add: statsOf_sharpeRatio sharpeRatioOf_def Let_def)
  show r: "stdDevOf rnd pnls = 0"
    if "(\<forall>p \<in> set pnls. p = c) \<and> avgReturnOf rnd pnls = c \<and> rnd 0 = 0"
    using that by (intro stdDevOf_identical) auto
  show "sharpeRatio (statsOf rnd pnls) = 0"
    if "(\<forall>p \<in> set pnls. p = c) \<and> avgReturnOf rnd pnls = c \<and> rnd 0 = 0"
    using r [OF that] by (simp add: statsOf_sharpeRatio sharpeRatioOf_def Let_def)
qed

lemma binary64_half: "binary64 (3602879701896397 / 2 ^ 54 / 2) = oneTenth"
  using binary64_eval [of "3602879701896397 / 2 ^ 54 / 2" 56] by (simp add: oneTenth_def)

lemma avgReturnOf_pair: "avgReturnOf binary64 [oneTenth, oneTenth] = oneTenth"
proof -
  have "real (length [oneTenth, oneTenth]) = 2" by simp
  then show ?thesis
    by (simp only: avgReturnOf_def reduceSum_def foldl.simps add_0 binary64_oneTenth binary64_twice binary64_half)
qed

text \<open>
  C5, witness: the returns 1, 3 with stdDev 1; the returns 5, 5, 5 in exact arithmetic;
  and two returns \<open>oneTenth\<close> in double arithmetic, whose mean is computed exactly.
\<close>

theorem sharpe_ratio_amended_witness:
  "[1, 3 :: real] \<noteq> [] \<and>
   0 < stdDevOf exact [1, 3] \<and>
   sharpeRatio (statsOf exact [1, 3]) = 2 * sqrt 252 \<and>
   list_all (\<lambda>p. p = 5) [5, 5, 5 :: real] \<and>
   stdDevOf exact [5, 5, 5] = 0 \<and>
   sharpeRatio (statsOf exact [5, 5, 5]) = 0 \<and>
   list_all (\<lambda>p. p = oneTenth) [oneTenth, oneTenth] \<and>
   avgReturnOf binary64 [oneTenth, oneTenth] = oneTenth \<and>
   binary64 0 = 0 \<and>
   stdDevOf binary64 [oneTenth, oneTenth] = 0 \<and>
   sharpeRatio (statsOf binary64 [oneTenth, oneTenth]) = 0"
proof -
  have pv: "populationVariance [1, 3] = 1"
    by (simp add: populationVariance_def power2_eq_square)
  note A = sharpe_ratio_amended [of "[1, 3]" exact 0]
  from A have "stdDevOf exact [1, 3] = sqrt (populationVariance [1, 3])"
    by blast
  then have sd: "stdDevOf exact [1, 3] = 1"
    by (simp add: pv)
  then have "0 < stdDevOf exact [1, 3]" by simp
  with A have "sharpeRatio (statsOf exact [1, 3])
      = sum_list [1, 3] / real (length [1, 3 :: real]) / sqrt (populationVariance [1, 3]) * sqrt 252"
    by blast
  then have a2: "sharpeRatio (statsOf exact [1, 3]) = 2 * sqrt 252"
    by (simp add: pv)
  note B = sharpe_ratio_amended [of "[5, 5, 5]" exact 5]
  have hb: "\<forall>p \<in> set [5, 5, 5 :: real]. p = 5" by simp
  from B hb have binary64_one: "stdDevOf exact [5, 5, 5] = 0"
    and binary64_thousandth: "sharpeRatio (statsOf exact [5, 5, 5]) = 0"
    by blast+
  have h: "(\<forall>p \<in> set [oneTenth, oneTenth]. p = oneTenth) \<and>
      avgReturnOf binary64 [oneTenth, oneTenth] = oneTenth \<and> binary64 0 = 0"
    by (simp add: avgReturnOf_pair binary64_zero)
  note C = sharpe_ratio_amended [of "[oneTenth, oneTenth]" binary64 oneTenth]
  from C h have c1: "stdDevOf binary64 [oneTenth, oneTenth] = 0"
    and c2: "sharpeRatio (statsOf binary64 [oneTenth, oneTenth]) = 0"
    by blast+
  show ?thesis
    using sd a2 binary64_one binary64_thousandth c1 c2 h by simp
qed

section \<open>Properties of the live score buffer and the message handlers\<close>

lemma slice_200: "slice (- 200) xs = drop (length xs - 200) xs"
  using slice_neg [of 200 xs] by simp

lemma liveZScoresUpdater_key:
  "liveZScoresUpdater key newPoint prev key =
     Some (drop (length (case prev key of None \<Rightarrow> [] | Some ps \<Rightarrow> ps) + 1 - 200)
             ((case prev key of None \<Rightarrow> [] | Some ps \<Rightarrow> ps) @ [newPoint]))"
  by (simp add: liveZScoresUpdater_def Let_def slice_200)

lemma liveZScoresUpdater_other:
  "k \<noteq> key \<Longrightarrow> liveZScoresUpdater key newPoint prev k = prev k"
  by (simp add: liveZScoresUpdater_def Let_def)

lemma liveZScoreEffect_apply:
  "msg_type m = Some ''live_zscore'' \<Longrightarrow>
     liveZScores (liveZScoreEffect now (Some m) a)
       = liveZScoresUpdater (scoreKey m) (newPointOf now m) (liveZScores a)"
  by (simp add: liveZScoreEffect_def)

lemma last_drop_snoc: "n \<le> length xs \<Longrightarrow> last (drop n (xs @ [x])) = x"
  by simp

text \<open>
  C9. On every \<open>live_zscore\<close> message the point built from it is appended to the
  buffer of the message's key, whatever its timestamp: the new buffer is the old one with
  the point at the end, cut to its last 200 elements, so the point is its last element,
  no stored point is merged or replaced, the oldest points go first, and at most 200
  remain. The buffers of all other keys are unchanged.
\<close>

theorem live_score_buffer_append:
  assumes "msg_type m = Some ''live_zscore''"
    and "existing = (case liveZScores a (scoreKey m) of None \<Rightarrow> [] | Some ps \<Rightarrow> ps)"
    and "after = liveZScores (liveZScoreEffect now (Some m) a)"
  shows "\<exists>pts. after (scoreKey m) = Some pts \<and>
           pts = drop (length existing + 1 - 200) (existing @ [newPointOf now m]) \<and>
           last pts = newPointOf now m \<and>
           length pts = min (length existing + 1) 200 \<and>
           (length existing < 200 \<longrightarrow> pts = existing @ [newPointOf now m]) \<and>
           (\<forall>k. k \<noteq> scoreKey m \<longrightarrow> after k = liveZScores a k)"
proof -
  let ?pts = "drop (length existing + 1 - 200) (existing @ [newPointOf now m])"
  have u: "after = liveZScoresUpdater (scoreKey m) (newPointOf now m) (liveZScores a)"
    using assms(1,3) by (simp add: liveZScoreEffect_apply)
  have "after (scoreKey m) = Some ?pts"
    unfolding u assms(2) by (rule liveZScoresUpdater_key)
  moreover have "last ?pts = newPointOf now m"
    by (rule last_drop_snoc) simp
  moreover have "length ?pts = min (length existing + 1) 200"
    by simp
  moreover have "?pts = existing @ [newPointOf now m]" if "length existing < 200"
    using that by simp
  moreover have "\<forall>k. k \<noteq> scoreKey m \<longrightarrow> after k = liveZScores a k"
    unfolding u by (simp add: liveZScoresUpdater_other)
  ultimately show ?thesis by blast
qed

lemma toLowerCase_example: "toLowerCase ''BTCUSDT'' = ''btcusdt''"
  by code_simp

lemma scoreKey_example: "scoreKey (scoreMessage ''BTCUSDT'' ''1m'' 1000 2) = ''btcusdt_1m''"
  by (simp add: scoreKey_def scoreMessage_def toLowerCase_example)

text \<open>
  C9, witness: a point at a timestamp already in the buffer is stored beside the old one,
  and the other key keeps its buffer.
\<close>

theorem live_score_buffer_append_witness:
  "msg_type (scoreMessage ''BTCUSDT'' ''1m'' 1000 2) = Some ''live_zscore'' \<and>
   liveZScores exampleApp ''btcusdt_1m'' = Some [pointAt 1000 1] \<and>
   liveZScores (liveZScoreEffect 5000 (Some (scoreMessage ''BTCUSDT'' ''1m'' 1000 2)) exampleApp)
     ''btcusdt_1m'' = Some [pointAt 1000 1, pointAt 1000 2] \<and>
   liveZScores (liveZScoreEffect 5000 (Some (scoreMessage ''BTCUSDT'' ''1m'' 1000 2)) exampleApp)
     ''ethusdt_1m'' = Some [pointAt 900 3]"
proof -
  let ?m = "scoreMessage ''BTCUSDT'' ''1m'' 1000 2"
  have h: "msg_type ?m = Some ''live_zscore''"
    by (simp add: scoreMessage_def)
  have e: "liveZScores exampleApp ''btcusdt_1m'' = Some [pointAt 1000 1]"
    and e': "liveZScores exampleApp ''ethusdt_1m'' = Some [pointAt 900 3]"
    by (simp_all add: exampleApp_def emptyApp_def)
  have n: "newPointOf 5000 ?m = pointAt 1000 2"
    by (simp add: newPointOf_def scoreMessage_def pointAt_def)
  have ex: "[pointAt 1000 1]
      = (case liveZScores exampleApp (scoreKey ?m) of None \<Rightarrow> [] | Some ps \<Rightarrow> ps)"
    by (simp add: scoreKey_example e)
  from live_score_buffer_append [OF h ex refl, of 5000]
  obtain pts where
    "liveZScores (liveZScoreEffect 5000 (Some ?m) exampleApp) (scoreKey ?m) = Some pts"
    "pts = drop (length [pointAt 1000 1] + 1 - 200) ([pointAt 1000 1] @ [newPointOf 5000 ?m])"
    "\<forall>k. k \<noteq> scoreKey ?m \<longrightarrow>
       liveZScores (liveZScoreEffect 5000 (Some ?m) exampleApp) k = liveZScores exampleApp k"
    by blast
  then have "liveZScores (liveZScoreEffect 5000 (Some ?m) exampleApp) ''btcusdt_1m''
      = Some [pointAt 1000 1, pointAt 1000 2]"
    and "liveZScores (liveZScoreEffect 5000 (Some ?m) exampleApp) ''ethusdt_1m''
      = Some [pointAt 900 3]"
    by (simp_all add: scoreKey_example n e')
  with h e show ?thesis by simp
qed

lemma toLowerCase_Nil_iff: "toLowerCase s = [] \<longleftrightarrow> s = []"
  by (simp add: toLowerCase_def)

text \<open>
  C10 (as stated, refuted). A \<open>live_zscore\<close> message with no symbol, timeframe,
  timestamp or \<open>z_score\<close> is not dropped: it appends the point (now, 0) under the key
  \<open>_undefined\<close>, and no warning is written.
\<close>

theorem malformed_message_counterexample:
  "msg_symbol (bareMessage ''live_zscore'') = None \<and>
   msg_timeframe (bareMessage ''live_zscore'') = None \<and>
   msg_timestamp (bareMessage ''live_zscore'') = None \<and>
   z_score (bareMessage ''live_zscore'') = None \<and>
   liveZScores (onFrame (\<lambda>data. Some (bareMessage ''live_zscore'')) 5000 ''BTCUSDT''
       (Some ''frame'') emptyApp) ''_undefined''
     = Some [\<lparr>sp_timestamp = 5000, sp_value = 0\<rparr>] \<and>
   liveZScores (onFrame (\<lambda>data. Some (bareMessage ''live_zscore'')) 5000 ''BTCUSDT''
       (Some ''frame'') emptyApp) \<noteq> liveZScores emptyApp \<and>
   warnings (onFrame (\<lambda>data. Some (bareMessage ''live_zscore'')) 5000 ''BTCUSDT''
       (Some ''frame'') emptyApp) = []"
proof -
  have k: "scoreKey (bareMessage ''live_zscore'') = ''_undefined''"
    by (simp add: scoreKey_def bareMessage_def toLowerCase_def)
  have f: "msg_type (bareMessage ''live_zscore'') = Some ''live_zscore''"
    "msg_symbol (bareMessage ''live_zscore'') = None"
    "msg_timeframe (bareMessage ''live_zscore'') = None"
    "msg_timestamp (bareMessage ''live_zscore'') = None"
    "z_score (bareMessage ''live_zscore'') = None"
    by (simp_all add: bareMessage_def)
  have l: "liveZScores (onFrame (\<lambda>data. Some (bareMessage ''live_zscore'')) 5000 ''BTCUSDT''
       (Some ''frame'') emptyApp) ''_undefined''
     = Some [\<lparr>sp_timestamp = 5000, sp_value = 0\<rparr>]"
    by (simp add: onFrame_def candleUpdateEffect_def liveZScoreEffect_def k f
        liveZScoresUpdater_def newPointOf_def slice_def emptyApp_def)
  have "liveZScores emptyApp ''_undefined'' = None"
    by (simp add: emptyApp_def)
  with l have "liveZScores (onFrame (\<lambda>data. Some (bareMessage ''live_zscore'')) 5000 ''BTCUSDT''
       (Some ''frame'') emptyApp) \<noteq> liveZScores emptyApp"
    by (metis option.distinct(1))
  moreover have "warnings (onFrame (\<lambda>data. Some (bareMessage ''live_zscore'')) 5000 ''BTCUSDT''
       (Some ''frame'') emptyApp) = []"
    by (simp add: onFrame_def candleUpdateEffect_def liveZScoreEffect_def f emptyApp_def)
  ultimately show ?thesis
    using l f(2-) by (intro conjI)
qed

text \<open>
  C10 (amended). A frame whose body fails JSON parsing is dropped with a warning: the
  state is the old one with the warning added, so no buffer and no stored message
  changes, and the handler returns. A \<open>candle_update\<close> message without symbol,
  timeframe or candle leaves the state of a chart (whose symbol is not empty) unchanged.
  A \<open>live_zscore\<close> message is applied whatever fields are missing, with the defaults:
  the point it builds ends the buffer of its key; without symbol and timeframe the key is
  \<open>_undefined\<close>, without timestamp and \<open>z_score\<close> the point is (now, 0).
\<close>

theorem malformed_messages_amended:
  "(JSON_parse data = None \<longrightarrow>
      onFrame JSON_parse now symbol (Some data) a = a\<lparr>warnings := warnings a @ [parseWarning]\<rparr>) \<and>
   (msg_type m = Some ''candle_update'' \<and> symbol \<noteq> [] \<and>
      (msg_symbol m = None \<or> msg_timeframe m = None \<or> msg_candle m = None) \<longrightarrow>
      candleUpdateEffect symbol (Some m) a = a) \<and>
   (msg_type m = Some ''live_zscore'' \<longrightarrow>
      (\<exists>pts. liveZScores (liveZScoreEffect now (Some m) a) (scoreKey m) = Some pts \<and>
             last pts = newPointOf now m)) \<and>
   (msg_symbol m = None \<and> msg_timeframe m = None \<longrightarrow> scoreKey m = ''_undefined'') \<and>
   (msg_timestamp m = None \<and> z_score m = None \<longrightarrow>
      newPointOf now m = \<lparr>sp_timestamp = now, sp_value = 0\<rparr>)"
proof (intro conjI impI)
  show "onFrame JSON_parse now symbol (Some data) a = a\<lparr>warnings := warnings a @ [parseWarning]\<rparr>"
    if "JSON_parse data = None"
    using that by (simp add: onFrame_def)
  show "candleUpdateEffect symbol (Some m) a = a"
    if "msg_type m = Some ''candle_update'' \<and> symbol \<noteq> [] \<and>
      (msg_symbol m = None \<or> msg_timeframe m = None \<or> msg_candle m = None)"
    using that by (auto simp: candleUpdateEffect_def toLowerCase_def)
  show "\<exists>pts. liveZScores (liveZScoreEffect now (Some m) a) (scoreKey m) = Some pts \<and>
             last pts = newPointOf now m"
    if "msg_type m = Some ''live_zscore''"
    using that by (simp add: liveZScoreEffect_apply liveZScoresUpdater_key)
  show "scoreKey m = ''_undefined''" if "msg_symbol m = None \<and> msg_timeframe m = None"
    using that by (simp add: scoreKey_def toLowerCase_def)
  show "newPointOf now m = \<lparr>sp_timestamp = now, sp_value = 0\<rparr>"
    if "msg_timestamp m = None \<and> z_score m = None"
    using that by (simp add: newPointOf_def)
qed

text \<open>
  C10, witness: a frame that does not parse, a \<open>candle_update\<close> and a \<open>live_zscore\<close>
  with no field but the type.
\<close>

theorem malformed_messages_amended_witness:
  "onFrame (\<lambda>data. None) 5000 ''BTCUSDT'' (Some ''not json'') exampleApp
     = exampleApp\<lparr>warnings := warnings exampleApp @ [parseWarning]\<rparr> \<and>
   msg_type (bareMessage ''candle_update'') = Some ''candle_update'' \<and>
   ''BTCUSDT'' \<noteq> [] \<and>
   msg_candle (bareMessage ''candle_update'') = None \<and>
   candleUpdateEffect ''BTCUSDT'' (Some (bareMessage ''candle_update'')) exampleApp = exampleApp \<and>
   msg_type (bareMessage ''live_zscore'') = Some ''live_zscore'' \<and>
   scoreKey (bareMessage ''live_zscore'') = ''_undefined'' \<and>
   newPointOf 5000 (bareMessage ''live_zscore'') = \<lparr>sp_timestamp = 5000, sp_value = 0\<rparr> \<and>
   (\<exists>pts. liveZScores (liveZScoreEffect 5000 (Some (bareMessage ''live_zscore'')) exampleApp)
            ''_undefined'' = Some pts \<and>
          last pts = \<lparr>sp_timestamp = 5000, sp_value = 0\<rparr>)"
proof -
  have c: "msg_type (bareMessage ''candle_update'') = Some ''candle_update''"
    "msg_candle (bareMessage ''candle_update'') = None"
    by (simp_all add: bareMessage_def)
  have z: "msg_type (bareMessage ''live_zscore'') = Some ''live_zscore''"
    "msg_symbol (bareMessage ''live_zscore'') = None \<and> msg_timeframe (bareMessage ''live_zscore'') = None"
    "msg_timestamp (bareMessage ''live_zscore'') = None \<and> z_score (bareMessage ''live_zscore'') = None"
    by (simp_all add: bareMessage_def)
  have ne: "''BTCUSDT'' \<noteq> []" by simp
  note A = malformed_messages_amended [of "\<lambda>data. None" "''not json''" 5000 "''BTCUSDT''"
      exampleApp "bareMessage ''candle_update''"]
  note B = malformed_messages_amended [of "\<lambda>data. None" "''not json''" 5000 "''BTCUSDT''"
      exampleApp "bareMessage ''live_zscore''"]
  from A have a1: "onFrame (\<lambda>data. None) 5000 ''BTCUSDT'' (Some ''not json'') exampleApp
     = exampleApp\<lparr>warnings := warnings exampleApp @ [parseWarning]\<rparr>"
    by blast
  from A c ne have a2: "candleUpdateEffect ''BTCUSDT'' (Some (bareMessage ''candle_update''))
      exampleApp = exampleApp"
    by blast
  from B z have b1: "scoreKey (bareMessage ''live_zscore'') = ''_undefined''"
    and b2: "newPointOf 5000 (bareMessage ''live_zscore'') = \<lparr>sp_timestamp = 5000, sp_value = 0\<rparr>"
    and b3: "\<exists>pts. liveZScores (liveZScoreEffect 5000 (Some (bareMessage ''live_zscore'')) exampleApp)
            (scoreKey (bareMessage ''live_zscore'')) = Some pts \<and>
          last pts = newPointOf 5000 (bareMessage ''live_zscore'')"
    by blast+
  from b3 have b4: "\<exists>pts. liveZScores (liveZScoreEffect 5000 (Some (bareMessage ''live_zscore'')) exampleApp)
            ''_undefined'' = Some pts \<and>
          last pts = \<lparr>sp_timestamp = 5000, sp_value = 0\<rparr>"
    unfolding b1 b2 .
  show ?thesis
    by (intro conjI a1 c ne a2 z(1) b1 b2 b4)
qed

end
